theory Spec2Isabelle
  imports Complex_Main
begin

section \<open>Values, errors and tables\<close>

text \<open>
  The scalars that a cell of a pandas table or a Python variable of the program can
  hold: a Python integer, a float (modelled by an exact rational, with the
  not-a-number value apart), or a string. A missing cell of a table is \<open>VNaN\<close>, as
  pandas represents it. An integer is a Python integer, without bound. Outside the
  model are infinite floats, rounding, the conversion of the integers of an
  all-numeric row to floats by \<open>iterrows\<close>, and the 64-bit integers of numpy
  (which \<open>pd.to_numeric\<close> returns for a numeric text, and \<open>iterrows\<close> for a table of
  integers only), whose sums and products wrap around.
\<close>

datatype val = VInt int | VFloat rat | VNaN | VStr string

text \<open>The exceptions of the program. \<open>lookup\<close> catches the first four.\<close>

datatype error = KeyError | IndexError | TypeError | ValueError
  | ZeroDivisionError | AttributeError

definition ebind :: "error + 'a \<Rightarrow> ('a \<Rightarrow> error + 'b) \<Rightarrow> error + 'b" where
  "ebind m f = (case m of Inl e \<Rightarrow> Inl e | Inr x \<Rightarrow> f x)"

fun emap :: "('a \<Rightarrow> error + 'b) \<Rightarrow> 'a list \<Rightarrow> error + 'b list" where
  "emap f [] = Inr []"
| "emap f (x # xs) = ebind (f x) (\<lambda>y. ebind (emap f xs) (\<lambda>ys. Inr (y # ys)))"

text \<open>
  A Python dict with string keys, in insertion order. \<open>dict_set\<close> is the assignment
  \<open>d[k] = v\<close>: an existing key keeps its place, a new key goes last.
\<close>

type_synonym pydict = "(string \<times> val) list"

fun dict_set :: "(string \<times> 'v) list \<Rightarrow> string \<Rightarrow> 'v \<Rightarrow> (string \<times> 'v) list" where
  "dict_set [] k v = [(k, v)]"
| "dict_set (p # ps) k v = (if fst p = k then (k, v) # ps else p # dict_set ps k v)"

definition dict_update :: "(string \<times> 'v) list \<Rightarrow> (string \<times> 'v) list \<Rightarrow> (string \<times> 'v) list" where
  "dict_update d u = foldl (\<lambda>acc kv. dict_set acc (fst kv) (snd kv)) d u"

definition dict_from :: "(string \<times> 'v) list \<Rightarrow> (string \<times> 'v) list" where
  "dict_from kvs = dict_update [] kvs"

text \<open>
  A DataFrame with the default row index: its column names and its rows. The cell of a
  row at a column the row has no entry for is missing.
\<close>

record dataframe =
  columns :: "string list"
  rows :: "pydict list"

definition cell :: "pydict \<Rightarrow> string \<Rightarrow> val" where
  "cell r c = (case map_of r c of Some v \<Rightarrow> v | None \<Rightarrow> VNaN)"

text \<open>
  The arguments of \<open>lookup\<close> as Python passes them: \<open>df\<close> and \<open>criteria\<close> are checked
  with \<open>isinstance\<close>, a criterion is a literal or a tuple, and the result is a list of
  dicts or a DataFrame.
\<close>

datatype df_arg = DataFrame dataframe | NotDataFrame

datatype crit = Lit val | Tup "val list"

datatype criteria_arg = Dict "(string \<times> crit) list" | NotDict

datatype result = RowList "pydict list" | Frame dataframe

section \<open>Comparisons\<close>

fun num_of :: "val \<Rightarrow> rat option" where
  "num_of (VInt i) = Some (of_int i)"
| "num_of (VFloat r) = Some r"
| "num_of VNaN = None"
| "num_of (VStr s) = None"

text \<open>\<open>==\<close>: numbers by value, strings by content, never true on a missing value.\<close>

fun py_eq :: "val \<Rightarrow> val \<Rightarrow> bool" where
  "py_eq (VStr s) (VStr t) = (s = t)"
| "py_eq (VStr s) b = False"
| "py_eq a (VStr t) = False"
| "py_eq a b = (case (num_of a, num_of b) of (Some x, Some y) \<Rightarrow> x = y | _ \<Rightarrow> False)"

fun str_lt :: "string \<Rightarrow> string \<Rightarrow> bool" where
  "str_lt [] [] = False"
| "str_lt [] (y # ys) = True"
| "str_lt (x # xs) [] = False"
| "str_lt (x # xs) (y # ys) =
     ((of_char x :: nat) < of_char y \<or> (x = y \<and> str_lt xs ys))"

text \<open>
  An ordering comparison of a cell with the value of the criterion, element by
  element: a missing cell compares false against every value, as pandas has it also
  in a column of strings; otherwise a string against a number or a missing value is a
  \<open>TypeError\<close>. The type of a column as a whole is not modelled: pandas refuses a
  column of floats against a string even when every cell of it is missing.
\<close>

fun py_cmp :: "(rat \<Rightarrow> rat \<Rightarrow> bool) \<Rightarrow> (string \<Rightarrow> string \<Rightarrow> bool) \<Rightarrow> val \<Rightarrow> val \<Rightarrow> error + bool" where
  "py_cmp nop sop (VStr s) (VStr t) = Inr (sop s t)"
| "py_cmp nop sop VNaN b = Inr False"
| "py_cmp nop sop (VStr s) b = Inl TypeError"
| "py_cmp nop sop a (VStr t) = Inl TypeError"
| "py_cmp nop sop a b =
     (case (num_of a, num_of b) of (Some x, Some y) \<Rightarrow> Inr (nop x y) | _ \<Rightarrow> Inr False)"

definition py_gt :: "val \<Rightarrow> val \<Rightarrow> error + bool" where
  "py_gt = py_cmp (\<lambda>x y. y < x) (\<lambda>s t. str_lt t s)"

definition py_lt :: "val \<Rightarrow> val \<Rightarrow> error + bool" where
  "py_lt = py_cmp (\<lambda>x y. x < y) (\<lambda>s t. str_lt s t)"

definition py_ge :: "val \<Rightarrow> val \<Rightarrow> error + bool" where
  "py_ge = py_cmp (\<lambda>x y. y \<le> x) (\<lambda>s t. \<not> str_lt s t)"

definition py_le :: "val \<Rightarrow> val \<Rightarrow> error + bool" where
  "py_le = py_cmp (\<lambda>x y. x \<le> y) (\<lambda>s t. \<not> str_lt t s)"

section \<open>The lookup engine (lookup.py)\<close>

text \<open>\<open>df[col]\<close>: the column as a list of cells, \<open>KeyError\<close> when there is none.\<close>

fun get_column :: "dataframe \<Rightarrow> val \<Rightarrow> error + val list" where
  "get_column df (VStr c) =
     (if c \<in> set (columns df) then Inr (map (\<lambda>r. cell r c) (rows df)) else Inl KeyError)"
| "get_column df k = Inl KeyError"

text \<open>The operator chain of \<open>_perform_lookup\<close>, in the order of the source.\<close>

definition apply_operator :: "dataframe \<Rightarrow> val \<Rightarrow> val \<Rightarrow> val \<Rightarrow> error + bool list" where
  "apply_operator df col operator v =
     (if operator = VStr ''>'' then ebind (get_column df col) (emap (\<lambda>x. py_gt x v))
      else if operator = VStr ''<'' then ebind (get_column df col) (emap (\<lambda>x. py_lt x v))
      else if operator = VStr ''>='' then ebind (get_column df col) (emap (\<lambda>x. py_ge x v))
      else if operator = VStr ''<='' then ebind (get_column df col) (emap (\<lambda>x. py_le x v))
      else if operator = VStr ''='' then
        ebind (get_column df col) (\<lambda>xs. Inr (map (\<lambda>x. py_eq x v) xs))
      else Inl ValueError)"

text \<open>The mask of one criterion: the body of the loop over \<open>criteria.items()\<close>.\<close>

fun criteria_mask :: "dataframe \<Rightarrow> string \<times> crit \<Rightarrow> error + bool list" where
  "criteria_mask df (col, Tup [operation_row_col, operator, v]) =
     apply_operator df operation_row_col operator v"
| "criteria_mask df (col, Tup [operator, v]) = apply_operator df (VStr col) operator v"
| "criteria_mask df (col, Tup t) = Inl ValueError"
| "criteria_mask df (col, Lit v) =
     ebind (get_column df (VStr col)) (\<lambda>xs. Inr (map (\<lambda>x. py_eq x v) xs))"

fun combine_criteria :: "dataframe \<Rightarrow> (string \<times> crit) list \<Rightarrow> bool list \<Rightarrow> error + bool list" where
  "combine_criteria df [] combined_mask = Inr combined_mask"
| "combine_criteria df (c # cs) combined_mask =
     ebind (criteria_mask df c)
       (\<lambda>m. combine_criteria df cs (map (\<lambda>(a, b). a \<and> b) (zip combined_mask m)))"

definition select_rows :: "dataframe \<Rightarrow> bool list \<Rightarrow> pydict list" where
  "select_rows df combined_mask = map snd (filter fst (zip combined_mask (rows df)))"

text \<open>
  One output row of the \<open>dictionary_list\<close> format: \<open>row.to_dict()\<close>, or the dict
  comprehension over \<open>output_columns\<close>, where \<open>row[key]\<close> raises \<open>KeyError\<close> for a
  name that is no column.
\<close>

definition project_row :: "dataframe \<Rightarrow> string list option \<Rightarrow> pydict \<Rightarrow> pydict" where
  "project_row df output_columns r =
     dict_from (map (\<lambda>k. (k, cell r k))
       (case output_columns of None \<Rightarrow> columns df | Some ks \<Rightarrow> ks))"

definition row_output :: "dataframe \<Rightarrow> string list option \<Rightarrow> pydict \<Rightarrow> error + pydict" where
  "row_output df output_columns r =
     (case output_columns of
        None \<Rightarrow> Inr (project_row df None r)
      | Some ks \<Rightarrow>
          ebind (emap (\<lambda>k. if k \<in> set (columns df) then Inr (k, cell r k) else Inl KeyError) ks)
            (\<lambda>kvs. Inr (dict_from kvs)))"

definition perform_lookup ::
  "df_arg \<Rightarrow> criteria_arg \<Rightarrow> string list option \<Rightarrow> string \<Rightarrow> error + result" where
  "perform_lookup df criteria output_columns output_format =
     (case df of
        NotDataFrame \<Rightarrow> Inl TypeError
      | DataFrame d \<Rightarrow>
         (case criteria of
            NotDict \<Rightarrow> Inl TypeError
          | Dict cs \<Rightarrow>
              ebind (combine_criteria d cs (replicate (length (rows d)) True))
                (\<lambda>combined_mask.
                   let matched_rows = select_rows d combined_mask in
                   if output_format = ''dataframe'' then
                     (case output_columns of
                        None \<Rightarrow> Inr (Frame (d\<lparr>rows := matched_rows\<rparr>))
                      | Some ks \<Rightarrow>
                          if \<forall>k \<in> set ks. k \<in> set (columns d)
                          then Inr (Frame \<lparr>columns = ks,
                                 rows = map (project_row d (Some ks)) matched_rows\<rparr>)
                          else Inl KeyError)
                   else if output_format = ''dictionary_list'' then
                     ebind (emap (row_output d output_columns) matched_rows)
                       (\<lambda>intervention_data. Inr (RowList intervention_data))
                   else Inl ValueError)))"

text \<open>
  \<open>if result:\<close> is the truth value of the result: a list is true when it has an
  element, and the truth value of a DataFrame is a \<open>ValueError\<close> in pandas.
\<close>

fun truth_of_result :: "result \<Rightarrow> error + bool" where
  "truth_of_result (RowList l) = Inr (l \<noteq> [])"
| "truth_of_result (Frame d) = Inl ValueError"

definition empty_result :: "string \<Rightarrow> result" where
  "empty_result output_format =
     (if output_format = ''dataframe'' then Frame \<lparr>columns = [], rows = []\<rparr> else RowList [])"

text \<open>
  The loop over \<open>fallback_criteria\<close>: every update is applied to a copy of the
  criteria the call was given. \<open>None\<close> is falling out of the loop.
\<close>

fun fallback_loop ::
  "df_arg \<Rightarrow> (string \<times> crit) list \<Rightarrow> string list option \<Rightarrow> string \<Rightarrow>
   (string \<times> crit) list list \<Rightarrow> error + result option" where
  "fallback_loop df criteria output_columns output_format [] = Inr None"
| "fallback_loop df criteria output_columns output_format (criteria_update # rest) =
     (let updated_criteria = dict_update criteria criteria_update in
      ebind (perform_lookup df (Dict updated_criteria) output_columns output_format)
        (\<lambda>result. ebind (truth_of_result result)
           (\<lambda>t. if t then Inr (Some result)
                else fallback_loop df criteria output_columns output_format rest)))"

text \<open>The body of the \<open>try\<close> block of \<open>lookup\<close>.\<close>

definition lookup_try ::
  "df_arg \<Rightarrow> criteria_arg \<Rightarrow> string list option \<Rightarrow> string \<Rightarrow>
   (string \<times> crit) list list option \<Rightarrow> error + result" where
  "lookup_try df criteria output_columns output_format fallback_criteria =
     ebind (perform_lookup df criteria output_columns output_format)
       (\<lambda>result. ebind (truth_of_result result)
          (\<lambda>t. if t then Inr result
               else (case fallback_criteria of
                       None \<Rightarrow> Inr (empty_result output_format)
                     | Some [] \<Rightarrow> Inr (empty_result output_format)
                     | Some fs \<Rightarrow>
                         (case criteria of
                            NotDict \<Rightarrow> Inl AttributeError
                          | Dict cs \<Rightarrow>
                              ebind (fallback_loop df cs output_columns output_format fs)
                                (\<lambda>found. case found of
                                     Some result \<Rightarrow> Inr result
                                   | None \<Rightarrow> Inr (empty_result output_format))))))"

definition caught :: "error \<Rightarrow> bool" where
  "caught e = (e = KeyError \<or> e = IndexError \<or> e = TypeError \<or> e = ValueError)"

definition lookup ::
  "df_arg \<Rightarrow> criteria_arg \<Rightarrow> string list option \<Rightarrow> string \<Rightarrow>
   (string \<times> crit) list list option \<Rightarrow> error + result" where
  "lookup df criteria output_columns output_format fallback_criteria =
     (case lookup_try df criteria output_columns output_format fallback_criteria of
        Inl e \<Rightarrow> if caught e then Inr (empty_result output_format) else Inl e
      | Inr result \<Rightarrow> Inr result)"

section \<open>Python numbers\<close>

text \<open>
  What the program reads from outside its arguments: the year of
  \<open>datetime.datetime.now()\<close>, the text Python prints for a float inside an f-string,
  and the number \<open>pd.to_numeric\<close> reads from a string (\<open>None\<close> when the string is no
  number).
\<close>

record environment =
  current_year :: int
  float_repr :: "rat \<Rightarrow> string"
  parse_number :: "string \<Rightarrow> (int + rat) option"

fun show_nat :: "nat \<Rightarrow> string" where
  "show_nat n =
     (if n < 10 then [''0123456789'' ! n]
      else show_nat (n div 10) @ [''0123456789'' ! (n mod 10)])"

definition show_int :: "int \<Rightarrow> string" where
  "show_int i = (if i < 0 then CHR ''-'' # show_nat (nat (- i)) else show_nat (nat i))"

text \<open>The text of a value inside an f-string.\<close>

fun py_str :: "environment \<Rightarrow> val \<Rightarrow> string" where
  "py_str env (VInt i) = show_int i"
| "py_str env (VFloat r) = float_repr env r"
| "py_str env VNaN = ''nan''"
| "py_str env (VStr s) = s"

fun py_truth :: "val \<Rightarrow> bool" where
  "py_truth (VInt i) = (i \<noteq> 0)"
| "py_truth (VFloat r) = (r \<noteq> 0)"
| "py_truth VNaN = True"
| "py_truth (VStr s) = (s \<noteq> [])"

text \<open>
  \<open>+\<close> and \<open>*\<close>: integers stay integers, a float makes the result a float, a missing
  value makes it missing; strings concatenate and repeat as in Python, and every other
  use of a string is a \<open>TypeError\<close>.
\<close>

fun py_add :: "val \<Rightarrow> val \<Rightarrow> error + val" where
  "py_add (VStr s) (VStr t) = Inr (VStr (s @ t))"
| "py_add (VStr s) b = Inl TypeError"
| "py_add a (VStr t) = Inl TypeError"
| "py_add (VInt i) (VInt j) = Inr (VInt (i + j))"
| "py_add a b =
     (case (num_of a, num_of b) of (Some x, Some y) \<Rightarrow> Inr (VFloat (x + y)) | _ \<Rightarrow> Inr VNaN)"

fun py_mul :: "val \<Rightarrow> val \<Rightarrow> error + val" where
  "py_mul (VStr s) (VInt n) = Inr (VStr (concat (replicate (nat n) s)))"
| "py_mul (VInt n) (VStr s) = Inr (VStr (concat (replicate (nat n) s)))"
| "py_mul (VStr s) b = Inl TypeError"
| "py_mul a (VStr t) = Inl TypeError"
| "py_mul (VInt i) (VInt j) = Inr (VInt (i * j))"
| "py_mul a b =
     (case (num_of a, num_of b) of (Some x, Some y) \<Rightarrow> Inr (VFloat (x * y)) | _ \<Rightarrow> Inr VNaN)"

text \<open>\<open>/\<close> is true division: the result is a float, and a zero divisor raises.\<close>

fun py_div :: "val \<Rightarrow> val \<Rightarrow> error + val" where
  "py_div (VStr s) b = Inl TypeError"
| "py_div a (VStr t) = Inl TypeError"
| "py_div a b =
     (if num_of b = Some 0 then Inl ZeroDivisionError
      else (case (num_of a, num_of b) of
              (Some x, Some y) \<Rightarrow> Inr (VFloat (x / y))
            | _ \<Rightarrow> Inr VNaN))"

text \<open>\<open>pd.to_numeric(x, errors='coerce')\<close> on a scalar, and \<open>pd.isna\<close>.\<close>

fun to_numeric :: "environment \<Rightarrow> val \<Rightarrow> val" where
  "to_numeric env (VStr s) =
     (case parse_number env s of
        None \<Rightarrow> VNaN
      | Some (Inl i) \<Rightarrow> VInt i
      | Some (Inr r) \<Rightarrow> VFloat r)"
| "to_numeric env v = v"

definition isna :: "val \<Rightarrow> bool" where
  "isna v = (v = VNaN)"

section \<open>The emission aggregator (emissions\_calculator.py)\<close>

text \<open>
  One row of \<open>operation_data.iterrows()\<close>: a Series labelled by the columns of the
  table. \<open>row[key]\<close> raises \<open>KeyError\<close> for a label the table does not have.
\<close>

record series =
  labels :: "string list"
  entries :: pydict

definition item :: "series \<Rightarrow> string \<Rightarrow> error + val" where
  "item row key = (if key \<in> set (labels row) then Inr (cell (entries row) key) else Inl KeyError)"

text \<open>The reference tables, under the names of the parameters.\<close>

record reference_tables =
  fuel_data :: dataframe
  refrigerant_gwp :: dataframe
  refrigerator_data :: dataframe
  vehicle_interventions :: dataframe
  vehicle_interventions_tru :: dataframe
  farm_emissions :: dataframe

text \<open>
  \<open>x[0][key] if x else 0\<close> and \<open>x[0].get(key, 0) if x else 0\<close> on the result of a
  lookup, and \<open>len(x)\<close>.
\<close>

fun first_value :: "result \<Rightarrow> string \<Rightarrow> error + val" where
  "first_value (RowList []) key = Inr (VInt 0)"
| "first_value (RowList (d # ds)) key =
     (case map_of d key of Some v \<Rightarrow> Inr v | None \<Rightarrow> Inl KeyError)"
| "first_value (Frame f) key = Inl ValueError"

fun first_get :: "result \<Rightarrow> string \<Rightarrow> error + val" where
  "first_get (RowList []) key = Inr (VInt 0)"
| "first_get (RowList (d # ds)) key =
     (case map_of d key of Some v \<Rightarrow> Inr v | None \<Rightarrow> Inr (VInt 0))"
| "first_get (Frame f) key = Inl ValueError"

fun result_len :: "result \<Rightarrow> nat" where
  "result_len (RowList l) = length l"
| "result_len (Frame f) = length (rows f)"

text \<open>A lookup of one column by one key of the row, with the default.\<close>

definition lookup_value ::
  "dataframe \<Rightarrow> (string \<times> crit) list \<Rightarrow> string \<Rightarrow> error + val" where
  "lookup_value table criteria key =
     ebind (lookup (DataFrame table) (Dict criteria) (Some [key]) ''dictionary_list'' None)
       (\<lambda>found. first_value found key)"

subsection \<open>Stage 1: lookup of the secondary data\<close>

record secondary =
  annual_leakage_rate :: val
  refrigerant_gwp_value :: val
  tru_annual_leakage_rate :: val
  tru_refrigerant_gwp_value :: val
  emission_factor_diesel_tru :: val
  tru_power_rating :: val
  average_tru_load_factor :: val
  tru_annual_hours :: val
  tru_plug_in_fraction_of_hours :: val
  emission_per_unit_livestock :: val
  emission_per_unit_fertilizer :: val
  emission_per_unit_waste :: val
  vehicle_fuel_efficiency :: val
  fuel_emission_factor_current :: val
  fuel_emission_factor_forecast :: val

text \<open>
  The names of the two columns the fuel lookup asks for: \<open>f'co2e_{current_year}'\<close>
  and \<open>f'co2e_{row["target_completion_year"]}'\<close>.
\<close>

definition current_year_co2e :: "environment \<Rightarrow> string" where
  "current_year_co2e env = ''co2e_'' @ show_int (current_year env)"

definition target_year_co2e :: "environment \<Rightarrow> val \<Rightarrow> string" where
  "target_year_co2e env target_year = ''co2e_'' @ py_str env target_year"

text \<open>
  The lookup of the fuel emission factors, with its fallback on the jurisdiction. The
  condition of \<open>fuel_mode\<close> reads \<open>row['fuel_type']\<close> only for a vehicle.
\<close>

definition fuel_lookup :: "environment \<Rightarrow> dataframe \<Rightarrow> series \<Rightarrow> error + result" where
  "fuel_lookup env fuel_table row =
     ebind (item row ''entity'') (\<lambda>entity.
     ebind (if py_eq entity (VStr ''vehicle'')
            then ebind (item row ''fuel_type'')
                   (\<lambda>fuel_type. Inr (\<not> py_eq fuel_type (VStr ''Electricity'')))
            else Inr False) (\<lambda>mobile.
     let fuel_mode = (if mobile then ''mobile'' else ''stationary'') in
     ebind (item row ''target_completion_year'') (\<lambda>target_year.
     ebind (item row ''fuel_type'') (\<lambda>fuel_type.
     ebind (item row ''state_or_province'') (\<lambda>state_or_province.
     lookup (DataFrame fuel_table)
       (Dict [(''fuel_type'', Lit fuel_type),
              (''fuel_mode'', Lit (VStr fuel_mode)),
              (''state_or_province'', Lit state_or_province)])
       (Some [current_year_co2e env, target_year_co2e env target_year]) ''dictionary_list''
       (Some [[(''state_or_province'', Lit (VStr ''Any''))]]))))))"

text \<open>
  The current-year factor and the forecast factor, in this order, read from the
  result of the lookup.
\<close>

definition fuel_factors :: "environment \<Rightarrow> dataframe \<Rightarrow> series \<Rightarrow> error + val \<times> val" where
  "fuel_factors env fuel_table row =
     ebind (fuel_lookup env fuel_table row) (\<lambda>fuel_emission_factors.
     ebind (first_get fuel_emission_factors (current_year_co2e env)) (\<lambda>factor_current.
     ebind (item row ''target_completion_year'') (\<lambda>target_completion_year.
     ebind (if py_eq target_completion_year (VInt (current_year env))
               \<and> result_len fuel_emission_factors = 1
            then Inr factor_current
            else first_get fuel_emission_factors
                   (target_year_co2e env target_completion_year)) (\<lambda>factor_forecast.
     Inr (factor_current, factor_forecast)))))"

text \<open>The vehicle fuel efficiency, with its three fallbacks.\<close>

definition vehicle_efficiency :: "dataframe \<Rightarrow> series \<Rightarrow> error + val" where
  "vehicle_efficiency vehicle_table row =
     ebind (item row ''vehicle_subcategory'') (\<lambda>vehicle_subcategory.
     ebind (item row ''fuel_type'') (\<lambda>fuel_type.
     ebind (item row ''vehicle_production_year'') (\<lambda>vehicle_production_year.
     ebind (item row ''vehicle_manufacturer'') (\<lambda>vehicle_manufacturer.
     ebind (lookup (DataFrame vehicle_table)
              (Dict [(''vehicle_subcategory'', Lit vehicle_subcategory),
                     (''fuel_type'', Lit fuel_type),
                     (''vehicle_production_year'', Lit vehicle_production_year),
                     (''vehicle_manufacturer'', Lit vehicle_manufacturer)])
              (Some [''fuel_efficiency'']) ''dictionary_list''
              (Some [[(''vehicle_production_year'', Lit (VInt 0))],
                     [(''vehicle_manufacturer'', Lit (VStr ''Others''))],
                     [(''vehicle_production_year'', Lit (VInt 0)),
                      (''vehicle_manufacturer'', Lit (VStr ''Others''))]])) (\<lambda>found.
     first_value found ''fuel_efficiency'')))))"

definition lookup_secondary_data ::
  "environment \<Rightarrow> reference_tables \<Rightarrow> series \<Rightarrow> error + secondary" where
  "lookup_secondary_data env tables row =
     ebind (item row ''refrigerator_type'') (\<lambda>refrigerator_type.
     ebind (lookup_value (refrigerator_data tables)
              [(''refrigerator_type'', Lit refrigerator_type)] ''annual_leakage_rate'') (\<lambda>v1.
     ebind (item row ''refrigerant_type'') (\<lambda>refrigerant_type.
     ebind (lookup_value (refrigerant_gwp tables)
              [(''refrigerant_type'', Lit refrigerant_type)] ''refrigerant_gwp'') (\<lambda>v2.
     ebind (lookup_value (refrigerator_data tables)
              [(''refrigerator_type'', Lit (VStr ''Transportation Refrigeration Unit''))]
              ''annual_leakage_rate'') (\<lambda>v3.
     ebind (item row ''tru_refrigerant_type'') (\<lambda>tru_refrigerant_type.
     ebind (lookup_value (refrigerant_gwp tables)
              [(''refrigerant_type'', Lit tru_refrigerant_type)] ''refrigerant_gwp'') (\<lambda>v4.
     ebind (item row ''tru_subcategory'') (\<lambda>tru_subcategory.
     ebind (item row ''tru_model_year'') (\<lambda>tru_model_year.
     ebind (lookup (DataFrame (vehicle_interventions_tru tables))
              (Dict [(''tru_type'', Lit tru_subcategory), (''model_year'', Lit tru_model_year)])
              (Some [''co2e_per_kwh_diesel_tru'', ''tru_power_rating'', ''average_load_factor'',
                     ''tru_annual_hours'', ''tru_plug_in_fraction_of_hours''])
              ''dictionary_list'' None) (\<lambda>tru_data.
     ebind (first_value tru_data ''co2e_per_kwh_diesel_tru'') (\<lambda>v5.
     ebind (first_value tru_data ''tru_power_rating'') (\<lambda>v6.
     ebind (first_value tru_data ''average_load_factor'') (\<lambda>v7.
     ebind (first_value tru_data ''tru_annual_hours'') (\<lambda>v8.
     ebind (first_value tru_data ''tru_plug_in_fraction_of_hours'') (\<lambda>v9.
     ebind (item row ''livestock_type'') (\<lambda>livestock_type.
     ebind (lookup_value (farm_emissions tables)
              [(''subcategory'', Lit livestock_type)] ''emission_per_unit'') (\<lambda>v10.
     ebind (item row ''fertilizer_type'') (\<lambda>fertilizer_type.
     ebind (lookup_value (farm_emissions tables)
              [(''subcategory'', Lit fertilizer_type)] ''emission_per_unit'') (\<lambda>v11.
     ebind (item row ''waste_type'') (\<lambda>waste_type.
     ebind (lookup_value (farm_emissions tables)
              [(''subcategory'', Lit waste_type)] ''emission_per_unit'') (\<lambda>v12.
     ebind (vehicle_efficiency (vehicle_interventions tables) row) (\<lambda>v13.
     ebind (fuel_factors env (fuel_data tables) row) (\<lambda>(v14, v15).
     Inr \<lparr>annual_leakage_rate = v1, refrigerant_gwp_value = v2,
          tru_annual_leakage_rate = v3, tru_refrigerant_gwp_value = v4,
          emission_factor_diesel_tru = v5, tru_power_rating = v6,
          average_tru_load_factor = v7, tru_annual_hours = v8,
          tru_plug_in_fraction_of_hours = v9, emission_per_unit_livestock = v10,
          emission_per_unit_fertilizer = v11, emission_per_unit_waste = v12,
          vehicle_fuel_efficiency = v13, fuel_emission_factor_current = v14,
          fuel_emission_factor_forecast = v15\<rparr>)))))))))))))))))))))))"

subsection \<open>Stage 2: numeric conversion of the fields of the row\<close>

record quantities =
  fuel_amount :: val
  refrigerant_charge :: val
  number_of_refrigerators :: val
  operating_distance :: val
  tru_number_of_vehicle_units :: val
  tru_refrigerant_charge :: val
  livestock_count :: val
  fertilizer_amount :: val
  waste_amount :: val

text \<open>
  \<open>x = pd.to_numeric(row[key], errors='coerce')\<close> followed by
  \<open>x = x if not pd.isna(x) else 0\<close>.
\<close>

definition numeric_field :: "environment \<Rightarrow> series \<Rightarrow> string \<Rightarrow> error + val" where
  "numeric_field env row key =
     ebind (item row key)
       (\<lambda>raw. let x = to_numeric env raw in Inr (if \<not> isna x then x else VInt 0))"

definition preprocess :: "environment \<Rightarrow> series \<Rightarrow> error + quantities" where
  "preprocess env row =
     ebind (numeric_field env row ''fuel_amount'') (\<lambda>q1.
     ebind (numeric_field env row ''refrigerant_charge'') (\<lambda>q2.
     ebind (numeric_field env row ''number_of_refrigerators'') (\<lambda>q3.
     ebind (numeric_field env row ''operating_distance'') (\<lambda>q4.
     ebind (numeric_field env row ''tru_number_of_vehicle_units'') (\<lambda>q5.
     ebind (numeric_field env row ''tru_refrigerant_charge'') (\<lambda>q6.
     ebind (numeric_field env row ''livestock_count'') (\<lambda>q7.
     ebind (numeric_field env row ''fertilizer_amount'') (\<lambda>q8.
     ebind (numeric_field env row ''waste_amount'') (\<lambda>q9.
     Inr \<lparr>fuel_amount = q1, refrigerant_charge = q2, number_of_refrigerators = q3,
          operating_distance = q4, tru_number_of_vehicle_units = q5,
          tru_refrigerant_charge = q6, livestock_count = q7, fertilizer_amount = q8,
          waste_amount = q9\<rparr>)))))))))"

subsection \<open>Stage 3: the emissions\<close>

record emission_record =
  operation_id :: val
  fuel_emissions :: val
  vehicle_emissions :: val
  refrigerant_emissions :: val
  livestock_emissions :: val
  fertilizer_emissions :: val
  waste_emissions :: val
  tru_emissions :: val
  total_emissions :: val

text \<open>\<open>a * b * c\<close> and \<open>a + b + c\<close> associate to the left.\<close>

fun py_product :: "val \<Rightarrow> val list \<Rightarrow> error + val" where
  "py_product a [] = Inr a"
| "py_product a (b # bs) = ebind (py_mul a b) (\<lambda>c. py_product c bs)"

fun py_sum :: "val \<Rightarrow> val list \<Rightarrow> error + val" where
  "py_sum a [] = Inr a"
| "py_sum a (b # bs) = ebind (py_add a b) (\<lambda>c. py_sum c bs)"

definition fuel_emissions_of :: "val \<Rightarrow> val \<Rightarrow> val \<Rightarrow> error + val" where
  "fuel_emissions_of amount factor_forecast factor_current =
     ebind (py_add factor_forecast factor_current) (\<lambda>factors.
     ebind (py_mul amount factors) (\<lambda>product.
     py_div product (VInt 2)))"

definition vehicle_emissions_of :: "val \<Rightarrow> val \<Rightarrow> val \<Rightarrow> val \<Rightarrow> error + val" where
  "vehicle_emissions_of distance efficiency factor_forecast factor_current =
     (if py_truth efficiency then
        ebind (py_div distance efficiency) (\<lambda>fuel_used.
        ebind (py_add factor_forecast factor_current) (\<lambda>factors.
        ebind (py_div factors (VInt 2)) (\<lambda>mean_factor.
        py_mul fuel_used mean_factor)))
      else Inr (VInt 0))"

definition tru_emissions_of :: "secondary \<Rightarrow> quantities \<Rightarrow> error + val" where
  "tru_emissions_of s q =
     ebind (py_product (tru_power_rating s)
              [average_tru_load_factor s, tru_annual_hours s,
               tru_plug_in_fraction_of_hours s, emission_factor_diesel_tru s]) (\<lambda>engine.
     ebind (py_product (tru_refrigerant_gwp_value s)
              [tru_refrigerant_charge q, tru_annual_leakage_rate s]) (\<lambda>leakage.
     ebind (py_add engine leakage) (\<lambda>per_unit.
     py_mul per_unit (tru_number_of_vehicle_units q))))"

definition calculate_emissions :: "series \<Rightarrow> secondary \<Rightarrow> quantities \<Rightarrow> error + emission_record" where
  "calculate_emissions row s q =
     ebind (fuel_emissions_of (fuel_amount q)
              (fuel_emission_factor_forecast s) (fuel_emission_factor_current s)) (\<lambda>e1.
     ebind (vehicle_emissions_of (operating_distance q) (vehicle_fuel_efficiency s)
              (fuel_emission_factor_forecast s) (fuel_emission_factor_current s)) (\<lambda>e2.
     ebind (py_product (refrigerant_charge q)
              [annual_leakage_rate s, refrigerant_gwp_value s, number_of_refrigerators q]) (\<lambda>e3.
     ebind (py_mul (livestock_count q) (emission_per_unit_livestock s)) (\<lambda>e4.
     ebind (py_mul (fertilizer_amount q) (emission_per_unit_fertilizer s)) (\<lambda>e5.
     ebind (py_mul (waste_amount q) (emission_per_unit_waste s)) (\<lambda>e6.
     ebind (tru_emissions_of s q) (\<lambda>e7.
     ebind (py_sum e1 [e2, e3, e4, e5, e6, e7]) (\<lambda>total.
     ebind (item row ''operation_id'') (\<lambda>ident.
     Inr \<lparr>operation_id = ident, fuel_emissions = e1, vehicle_emissions = e2,
          refrigerant_emissions = e3, livestock_emissions = e4,
          fertilizer_emissions = e5, waste_emissions = e6, tru_emissions = e7,
          total_emissions = total\<rparr>)))))))))"

text \<open>The body of the loop over the rows, and the loop.\<close>

definition process_row ::
  "environment \<Rightarrow> reference_tables \<Rightarrow> series \<Rightarrow> error + emission_record" where
  "process_row env tables row =
     ebind (lookup_secondary_data env tables row) (\<lambda>s.
     ebind (preprocess env row) (\<lambda>q.
     calculate_emissions row s q))"

definition calculate_annual_emissions ::
  "environment \<Rightarrow> dataframe \<Rightarrow> reference_tables \<Rightarrow> error + emission_record list" where
  "calculate_annual_emissions env operation_data tables =
     emap (\<lambda>r. process_row env tables \<lparr>labels = columns operation_data, entries = r\<rparr>)
       (rows operation_data)"

section \<open>Failing criteria\<close>

text \<open>
  The three ways a criterion fails in \<open>_perform_lookup\<close>: it names a column the
  table does not have, its comparator is none of the five tokens, or it is a tuple of a
  length other than 2 or 3.
\<close>

definition valid_operator :: "val \<Rightarrow> bool" where
  "valid_operator operator =
     (operator \<in> {VStr ''>'', VStr ''<'', VStr ''>='', VStr ''<='', VStr ''=''})"

definition known_column :: "dataframe \<Rightarrow> val \<Rightarrow> bool" where
  "known_column df c = (case c of VStr s \<Rightarrow> s \<in> set (columns df) | _ \<Rightarrow> False)"

fun failing_criterion :: "dataframe \<Rightarrow> string \<times> crit \<Rightarrow> bool" where
  "failing_criterion df (col, Lit v) = (col \<notin> set (columns df))"
| "failing_criterion df (col, Tup [operation_row_col, operator, v]) =
     (\<not> valid_operator operator \<or> \<not> known_column df operation_row_col)"
| "failing_criterion df (col, Tup [operator, v]) =
     (\<not> valid_operator operator \<or> col \<notin> set (columns df))"
| "failing_criterion df (col, Tup t) = True"

section \<open>Example tables\<close>

definition fuel_table :: dataframe where
  "fuel_table = \<lparr>columns = [''fuel_type'', ''emission_factor''],
     rows = [[(''fuel_type'', VStr ''Diesel''), (''emission_factor'', VFloat 2.68)],
             [(''fuel_type'', VStr ''Petrol''), (''emission_factor'', VFloat 2.31)],
             [(''fuel_type'', VStr ''Diesel''), (''emission_factor'', VFloat 2.7)]]\<rparr>"

definition vehicle_table :: dataframe where
  "vehicle_table = \<lparr>columns = [''year'', ''maker'', ''fuel_efficiency''],
     rows = [[(''year'', VInt 0), (''maker'', VStr ''Others''), (''fuel_efficiency'', VInt 7)],
             [(''year'', VInt 2019), (''maker'', VStr ''Acme''), (''fuel_efficiency'', VInt 9)]]\<rparr>"

text \<open>The columns of the operation table that \<open>calculate_annual_emissions\<close> reads.\<close>

definition operation_columns :: "string list" where
  "operation_columns =
     [''operation_id'', ''entity'', ''fuel_type'', ''fuel_amount'', ''operating_distance'',
      ''refrigerator_type'', ''refrigerant_type'', ''refrigerant_charge'',
      ''number_of_refrigerators'', ''vehicle_subcategory'', ''vehicle_production_year'',
      ''vehicle_manufacturer'', ''tru_subcategory'', ''tru_model_year'',
      ''tru_refrigerant_type'', ''tru_number_of_vehicle_units'', ''tru_refrigerant_charge'',
      ''livestock_type'', ''livestock_count'', ''fertilizer_type'', ''fertilizer_amount'',
      ''waste_type'', ''waste_amount'', ''target_completion_year'', ''state_or_province'']"

definition no_rows :: "string list \<Rightarrow> dataframe" where
  "no_rows cs = \<lparr>columns = cs, rows = []\<rparr>"

text \<open>
  The end-to-end example: one farm emission factor, every other reference table
  without rows, and one operation of ten cattle whose other fields are missing.
\<close>

definition cattle_tables :: reference_tables where
  "cattle_tables =
     \<lparr>fuel_data = no_rows [''fuel_type'', ''fuel_mode'', ''state_or_province''],
      refrigerant_gwp = no_rows [''refrigerant_type'', ''refrigerant_gwp''],
      refrigerator_data = no_rows [''refrigerator_type'', ''annual_leakage_rate''],
      vehicle_interventions = no_rows [''vehicle_subcategory'', ''fuel_type'',
        ''vehicle_production_year'', ''vehicle_manufacturer'', ''fuel_efficiency''],
      vehicle_interventions_tru = no_rows [''tru_type'', ''model_year'',
        ''co2e_per_kwh_diesel_tru'', ''tru_power_rating'', ''average_load_factor'',
        ''tru_annual_hours'', ''tru_plug_in_fraction_of_hours''],
      farm_emissions = \<lparr>columns = [''subcategory'', ''emission_per_unit''],
        rows = [[(''subcategory'', VStr ''Cattle''), (''emission_per_unit'', VFloat 2.5)]]\<rparr>\<rparr>"

definition cattle_operations :: dataframe where
  "cattle_operations =
     \<lparr>columns = operation_columns,
      rows = [[(''operation_id'', VInt 1), (''livestock_type'', VStr ''Cattle''),
               (''livestock_count'', VInt 10)]]\<rparr>"

definition cattle_row :: series where
  "cattle_row = \<lparr>labels = operation_columns,
     entries = [(''operation_id'', VInt 1), (''livestock_type'', VStr ''Cattle''),
               (''livestock_count'', VInt 10)]\<rparr>"

text \<open>
  An environment for the examples: the year is 2024, the float 2024.0 prints as
  \<open>2024.0\<close>, and of the strings of the examples \<open>12\<close> and \<open>2.5\<close> are numbers.
\<close>

definition year_2024 :: environment where
  "year_2024 = \<lparr>current_year = 2024, float_repr = (\<lambda>r. ''2024.0''),
     parse_number = (\<lambda>s. if s = ''12'' then Some (Inl 12)
                         else if s = ''2.5'' then Some (Inr 2.5) else None)\<rparr>"




section \<open>The numeric fields\<close>

text \<open>
  The nine fields of the row that stage 2 converts, and the conversion as the
  specification words it: the field is coerced to a number, and a value that fails
  the coercion (no number, or missing) is taken as 0.
\<close>

definition numeric_fields :: "string list" where
  "numeric_fields =
     [''fuel_amount'', ''refrigerant_charge'', ''number_of_refrigerators'',
      ''operating_distance'', ''tru_number_of_vehicle_units'', ''tru_refrigerant_charge'',
      ''livestock_count'', ''fertilizer_amount'', ''waste_amount'']"

fun coerce_or_zero :: "environment \<Rightarrow> val \<Rightarrow> val" where
  "coerce_or_zero env (VInt i) = VInt i"
| "coerce_or_zero env (VFloat r) = VFloat r"
| "coerce_or_zero env VNaN = VInt 0"
| "coerce_or_zero env (VStr s) =
     (case parse_number env s of
        None \<Rightarrow> VInt 0
      | Some (Inl i) \<Rightarrow> VInt i
      | Some (Inr r) \<Rightarrow> VFloat r)"

section \<open>Example operations\<close>

text \<open>
  The fuel example: one row of fuel factors with \<open>co2e_2024 = 1.2\<close> and no column
  for another year, and an operation of 100 units of fuel whose target year is the
  integer 2024.
\<close>

definition fuel_example_tables :: reference_tables where
  "fuel_example_tables = cattle_tables
     \<lparr>fuel_data := \<lparr>columns = [''fuel_type'', ''fuel_mode'', ''state_or_province'', ''co2e_2024''],
        rows = [[(''fuel_type'', VStr ''Diesel''), (''fuel_mode'', VStr ''stationary''),
                 (''state_or_province'', VStr ''CA''), (''co2e_2024'', VFloat 1.2)]]\<rparr>\<rparr>"

definition fuel_example_row :: series where
  "fuel_example_row = \<lparr>labels = operation_columns,
     entries = [(''operation_id'', VInt 7), (''entity'', VStr ''facility''),
                (''fuel_type'', VStr ''Diesel''), (''fuel_amount'', VInt 100),
                (''operating_distance'', VInt 500),
                (''state_or_province'', VStr ''CA''),
                (''target_completion_year'', VInt 2024)]\<rparr>"

definition fuel_example_secondary :: secondary where
  "fuel_example_secondary =
     \<lparr>annual_leakage_rate = VInt 0, refrigerant_gwp_value = VInt 0,
      tru_annual_leakage_rate = VInt 0, tru_refrigerant_gwp_value = VInt 0,
      emission_factor_diesel_tru = VInt 0, tru_power_rating = VInt 0,
      average_tru_load_factor = VInt 0, tru_annual_hours = VInt 0,
      tru_plug_in_fraction_of_hours = VInt 0, emission_per_unit_livestock = VInt 0,
      emission_per_unit_fertilizer = VInt 0, emission_per_unit_waste = VInt 0,
      vehicle_fuel_efficiency = VInt 0, fuel_emission_factor_current = VFloat 1.2,
      fuel_emission_factor_forecast = VFloat 1.2\<rparr>"

definition fuel_example_result :: emission_record where
  "fuel_example_result =
     \<lparr>operation_id = VInt 7, fuel_emissions = VFloat 120, vehicle_emissions = VInt 0,
      refrigerant_emissions = VInt 0, livestock_emissions = VInt 0,
      fertilizer_emissions = VInt 0, waste_emissions = VInt 0, tru_emissions = VInt 0,
      total_emissions = VFloat 120\<rparr>"

text \<open>
  A row whose target year is the float 2024.0, and a fuel table that has a column
  named after that float and two rows for the key of the row.
\<close>

definition float_year_row :: series where
  "float_year_row = \<lparr>labels = operation_columns,
     entries = [(''operation_id'', VInt 8), (''entity'', VStr ''facility''),
                (''fuel_type'', VStr ''Diesel''), (''fuel_amount'', VInt 100),
                (''state_or_province'', VStr ''CA''),
                (''target_completion_year'', VFloat 2024)]\<rparr>"

definition drift_tables :: reference_tables where
  "drift_tables = cattle_tables
     \<lparr>fuel_data := \<lparr>columns = [''fuel_type'', ''fuel_mode'', ''state_or_province'',
                                ''co2e_2024'', ''co2e_2024.0''],
        rows = [[(''fuel_type'', VStr ''Diesel''), (''fuel_mode'', VStr ''stationary''),
                 (''state_or_province'', VStr ''CA''), (''co2e_2024'', VFloat 1.2),
                 (''co2e_2024.0'', VInt 3)],
                [(''fuel_type'', VStr ''Diesel''), (''fuel_mode'', VStr ''stationary''),
                 (''state_or_province'', VStr ''CA''), (''co2e_2024'', VFloat 1.3),
                 (''co2e_2024.0'', VInt 4)]]\<rparr>\<rparr>"

definition drift_result :: emission_record where
  "drift_result =
     \<lparr>operation_id = VInt 8, fuel_emissions = VFloat 210, vehicle_emissions = VInt 0,
      refrigerant_emissions = VInt 0, livestock_emissions = VInt 0,
      fertilizer_emissions = VInt 0, waste_emissions = VInt 0, tru_emissions = VInt 0,
      total_emissions = VFloat 210\<rparr>"

text \<open>
  A row whose numeric fields hold a text that is no number, texts that are numbers,
  numbers, and missing values.
\<close>

definition mixed_row :: series where
  "mixed_row = \<lparr>labels = operation_columns,
     entries = [(''operation_id'', VInt 9), (''fuel_amount'', VStr ''abc''),
                (''number_of_refrigerators'', VInt 3), (''operating_distance'', VStr ''12''),
                (''tru_number_of_vehicle_units'', VFloat 1.5),
                (''tru_refrigerant_charge'', VStr ''2.5''), (''livestock_count'', VNaN),
                (''fertilizer_amount'', VStr []), (''waste_amount'', VInt 0)]\<rparr>"

section \<open>Properties of the lookup engine\<close>

subsection \<open>Errors as values\<close>

lemma ebind_Inr [simp]: "ebind (Inr x) f = f x"
  by (simp add: ebind_def)

lemma ebind_Inl [simp]: "ebind (Inl e) f = Inl e"
  by (simp add: ebind_def)

lemma ebind_eq_Inl: "ebind m f = Inl e \<longleftrightarrow> m = Inl e \<or> (\<exists>x. m = Inr x \<and> f x = Inl e)"
  by (cases m) simp_all

lemma ebind_eq_Inr: "ebind m f = Inr y \<longleftrightarrow> (\<exists>x. m = Inr x \<and> f x = Inr y)"
  by (cases m) simp_all

lemma emap_total: "(\<And>x. x \<in> set xs \<Longrightarrow> f x = Inr (g x)) \<Longrightarrow> emap f xs = Inr (map g xs)"
  by (induction xs) simp_all

lemma emap_Inl: "emap f xs = Inl e \<Longrightarrow> \<exists>x \<in> set xs. f x = Inl e"
  by (induction xs) (auto simp: ebind_eq_Inl)


lemma caught_simps [simp]:
  "caught KeyError" "caught IndexError" "caught TypeError" "caught ValueError"
  by (simp_all add: caught_def)

subsection \<open>The equality predicate\<close>

lemma mask_all_true: "length m = n \<Longrightarrow> map (\<lambda>(a, b). a \<and> b) (zip (replicate n True) m) = m"
proof (induction m arbitrary: n)
  case Nil
  then show ?case by simp
next
  case (Cons a m)
  then obtain k where "n = Suc k" by (cases n) auto
  with Cons show ?case by simp
qed

lemma select_rows_map: "select_rows df (map P (rows df)) = filter P (rows df)"
proof -
  have "map snd (filter fst (zip (map P xs) xs)) = filter P xs" for xs :: "pydict list"
    by (induction xs) simp_all
  then show ?thesis by (simp add: select_rows_def)
qed

lemma row_output_known:
  assumes "case oc of None \<Rightarrow> True | Some ks \<Rightarrow> set ks \<subseteq> set (columns T)"
  shows "row_output T oc r = Inr (project_row T oc r)"
proof (cases oc)
  case None
  then show ?thesis by (simp add: row_output_def)
next
  case (Some ks)
  with assms have sub: "set ks \<subseteq> set (columns T)" by simp
  have "emap (\<lambda>k. if k \<in> set (columns T) then Inr (k, cell r k) else Inl KeyError) ks
        = Inr (map (\<lambda>k. (k, cell r k)) ks)"
    by (rule emap_total) (use sub in auto)
  with Some show ?thesis by (simp add: row_output_def project_row_def)
qed

lemma lookup_equality_projected:
  assumes col: "col \<in> set (columns T)"
    and oc: "case output_columns of None \<Rightarrow> True | Some ks \<Rightarrow> set ks \<subseteq> set (columns T)"
  shows "lookup (DataFrame T) (Dict [(col, Lit v)]) output_columns ''dictionary_list'' None =
         Inr (RowList (map (project_row T output_columns)
                (filter (\<lambda>r. py_eq (cell r col) v) (rows T))))"
proof -
  let ?P = "\<lambda>r. py_eq (cell r col) v"
  have m: "combine_criteria T [(col, Lit v)] (replicate (length (rows T)) True)
           = Inr (map ?P (rows T))"
    using col by (simp add: mask_all_true comp_def)
  have out: "emap (row_output T output_columns) (filter ?P (rows T))
             = Inr (map (project_row T output_columns) (filter ?P (rows T)))"
    by (rule emap_total) (rule row_output_known [OF oc])
  have p: "perform_lookup (DataFrame T) (Dict [(col, Lit v)]) output_columns ''dictionary_list''
           = Inr (RowList (map (project_row T output_columns) (filter ?P (rows T))))"
    by (simp add: perform_lookup_def m select_rows_map out del: combine_criteria.simps)
  show ?thesis
    by (simp add: lookup_def lookup_try_def p empty_result_def)
qed

text \<open>
  A dict built from a list of keys holds each key once, at the place of its first
  occurrence: the keys of an output row are \<open>rev (remdups (rev ks))\<close>.
\<close>

lemma dict_set_keys:
  "dict_set (map (\<lambda>k. (k, f k)) as) k (f k) =
     map (\<lambda>k. (k, f k)) (if k \<in> set as then as else as @ [k])"
  by (induction as) auto

lemma remdups_snoc:
  "remdups (xs @ [k]) = filter (\<lambda>x. x \<noteq> k) (remdups xs) @ [k]"
  by (induction xs) auto

lemma first_occurrences_Cons:
  "rev (remdups (rev (k # ks))) = k # filter (\<lambda>x. x \<noteq> k) (rev (remdups (rev ks)))"
  by (simp add: remdups_snoc rev_filter)

lemma dict_update_keys:
  "dict_update (map (\<lambda>k. (k, f k)) as) (map (\<lambda>k. (k, f k)) ks) =
     map (\<lambda>k. (k, f k)) (as @ filter (\<lambda>k. k \<notin> set as) (rev (remdups (rev ks))))"
proof (induction ks arbitrary: as)
  case Nil
  then show ?case by (simp add: dict_update_def)
next
  case (Cons k ks)
  have step: "dict_update (map (\<lambda>k. (k, f k)) as) (map (\<lambda>k. (k, f k)) (k # ks)) =
        dict_update (map (\<lambda>k. (k, f k)) (if k \<in> set as then as else as @ [k]))
          (map (\<lambda>k. (k, f k)) ks)"
    using dict_set_keys [of f as k] by (simp add: dict_update_def)
  show ?case
  proof (cases "k \<in> set as")
    case True
    then have "filter (\<lambda>x. x \<notin> set as) (filter (\<lambda>x. x \<noteq> k) xs) = filter (\<lambda>x. x \<notin> set as) xs" for xs
      by (induction xs) auto
    with True step Cons.IH [of as] show ?thesis
      by (simp only: first_occurrences_Cons) simp
  next
    case False
    have "filter (\<lambda>x. x \<notin> set (as @ [k])) xs
          = filter (\<lambda>x. x \<notin> set as) (filter (\<lambda>x. x \<noteq> k) xs)" for xs
      by (induction xs) auto
    with False step Cons.IH [of "as @ [k]"] show ?thesis
      by (simp only: first_occurrences_Cons) simp
  qed
qed

lemma dict_from_keys:
  "dict_from (map (\<lambda>k. (k, f k)) ks) = map (\<lambda>k. (k, f k)) (rev (remdups (rev ks)))"
  using dict_update_keys [of f "[]" ks] by (simp add: dict_from_def)

lemma project_row_cells:
  "project_row T oc r =
     map (\<lambda>k. (k, case map_of r k of Some x \<Rightarrow> x | None \<Rightarrow> VNaN))
       (rev (remdups (rev (case oc of None \<Rightarrow> columns T | Some ks \<Rightarrow> ks))))"
  unfolding project_row_def cell_def by (rule dict_from_keys)

text \<open>
  Claim C1. For a table \<open>T\<close>, a column \<open>col\<close> of \<open>T\<close> and a value \<open>v\<close>,
  \<open>lookup(T, {col: v})\<close> in the \<open>dictionary_list\<close> format returns exactly the rows
  of \<open>T\<close> whose cell at \<open>col\<close> equals \<open>v\<close>, in the order of \<open>T\<close>: each returned
  row holds, for every column of \<open>T\<close> (for every name of \<open>output_columns\<close> when they
  are given, and are columns of \<open>T\<close>), the cell of that row, missing cells as NaN.
\<close>

theorem lookup_equality_rows:
  assumes col: "col \<in> set (columns T)"
    and oc: "case output_columns of None \<Rightarrow> True | Some ks \<Rightarrow> set ks \<subseteq> set (columns T)"
  shows "lookup (DataFrame T) (Dict [(col, Lit v)]) output_columns ''dictionary_list'' None =
         Inr (RowList
           (map (\<lambda>r. map (\<lambda>k. (k, case map_of r k of Some x \<Rightarrow> x | None \<Rightarrow> VNaN))
                   (rev (remdups (rev (case output_columns of
                                         None \<Rightarrow> columns T | Some ks \<Rightarrow> ks)))))
              (filter (\<lambda>r. py_eq (case map_of r col of Some x \<Rightarrow> x | None \<Rightarrow> VNaN) v)
                 (rows T))))"
  using lookup_equality_projected [OF col oc, of v]
  by (simp add: project_row_cells cell_def cong: map_cong)

theorem lookup_equality_rows_witness:
  "''fuel_type'' \<in> set (columns fuel_table) \<and>
   (case Some [''emission_factor''] of None \<Rightarrow> True
    | Some ks \<Rightarrow> set ks \<subseteq> set (columns fuel_table)) \<and>
   lookup (DataFrame fuel_table) (Dict [(''fuel_type'', Lit (VStr ''Diesel''))])
     (Some [''emission_factor'']) ''dictionary_list'' None =
   Inr (RowList [[(''emission_factor'', VFloat 2.68)], [(''emission_factor'', VFloat 2.7)]]) \<and>
   (case None of None \<Rightarrow> True
    | Some ks \<Rightarrow> set ks \<subseteq> set (columns fuel_table)) \<and>
   lookup (DataFrame fuel_table) (Dict [(''fuel_type'', Lit (VStr ''Diesel''))])
     None ''dictionary_list'' None =
   Inr (RowList [[(''fuel_type'', VStr ''Diesel''), (''emission_factor'', VFloat 2.68)],
                 [(''fuel_type'', VStr ''Diesel''), (''emission_factor'', VFloat 2.7)]])"
  using lookup_equality_rows [of "''fuel_type''" fuel_table "Some [''emission_factor'']" "VStr ''Diesel''"]
    lookup_equality_rows [of "''fuel_type''" fuel_table None "VStr ''Diesel''"]
  by (simp add: fuel_table_def)

subsection \<open>Fallback criteria\<close>

lemma fallback_loop_misses:
  "\<forall>F \<in> set pre. perform_lookup df (Dict (dict_update cs F)) oc fmt = Inr (RowList []) \<Longrightarrow>
   fallback_loop df cs oc fmt (pre @ rest) = fallback_loop df cs oc fmt rest"
  by (induction pre) simp_all

lemma lookup_try_fallback:
  "perform_lookup df (Dict cs) oc fmt = Inr (RowList []) \<Longrightarrow>
   lookup_try df (Dict cs) oc fmt (Some fs) =
   ebind (fallback_loop df cs oc fmt fs)
     (\<lambda>found. case found of Some r \<Rightarrow> Inr r | None \<Rightarrow> Inr (empty_result fmt))"
  by (cases fs) (simp_all add: lookup_try_def)

text \<open>
  Claim C2. When the primary criteria match no row, the fallback updates are tried in
  order, each one applied to the criteria the call was given; the rows of the first
  attempt that matches are returned whatever the later updates are, and when every
  attempt matches no row the result is the empty list.
\<close>

theorem lookup_fallback_order:
  assumes primary: "perform_lookup df (Dict criteria) oc ''dictionary_list'' = Inr (RowList [])"
    and earlier: "\<forall>F \<in> set pre.
       perform_lookup df (Dict (dict_update criteria F)) oc ''dictionary_list'' = Inr (RowList [])"
  shows "(\<forall>F post rs.
            perform_lookup df (Dict (dict_update criteria F)) oc ''dictionary_list''
              = Inr (RowList rs) \<and> rs \<noteq> [] \<longrightarrow>
            lookup df (Dict criteria) oc ''dictionary_list'' (Some (pre @ F # post))
              = Inr (RowList rs)) \<and>
         lookup df (Dict criteria) oc ''dictionary_list'' (Some pre) = Inr (RowList [])"
proof (intro conjI allI impI)
  fix F post rs
  assume hit: "perform_lookup df (Dict (dict_update criteria F)) oc ''dictionary_list''
                 = Inr (RowList rs) \<and> rs \<noteq> []"
  have "fallback_loop df criteria oc ''dictionary_list'' (pre @ F # post) = Inr (Some (RowList rs))"
    using hit by (simp add: fallback_loop_misses [OF earlier])
  then show "lookup df (Dict criteria) oc ''dictionary_list'' (Some (pre @ F # post))
               = Inr (RowList rs)"
    by (simp add: lookup_def lookup_try_fallback [OF primary])
next
  have "fallback_loop df criteria oc ''dictionary_list'' pre = Inr None"
    using fallback_loop_misses [OF earlier, of "[]"] by simp
  then show "lookup df (Dict criteria) oc ''dictionary_list'' (Some pre) = Inr (RowList [])"
    by (simp add: lookup_def lookup_try_fallback [OF primary] empty_result_def)
qed

theorem lookup_fallback_order_witness:
  "perform_lookup (DataFrame vehicle_table)
     (Dict [(''year'', Lit (VInt 2020)), (''maker'', Lit (VStr ''Ford''))])
     (Some [''fuel_efficiency'']) ''dictionary_list'' = Inr (RowList []) \<and>
   perform_lookup (DataFrame vehicle_table)
     (Dict (dict_update [(''year'', Lit (VInt 2020)), (''maker'', Lit (VStr ''Ford''))]
        [(''year'', Lit (VInt 0))]))
     (Some [''fuel_efficiency'']) ''dictionary_list'' = Inr (RowList []) \<and>
   perform_lookup (DataFrame vehicle_table)
     (Dict (dict_update [(''year'', Lit (VInt 2020)), (''maker'', Lit (VStr ''Ford''))]
        [(''maker'', Lit (VStr ''Others''))]))
     (Some [''fuel_efficiency'']) ''dictionary_list'' = Inr (RowList []) \<and>
   lookup (DataFrame vehicle_table)
     (Dict [(''year'', Lit (VInt 2020)), (''maker'', Lit (VStr ''Ford''))])
     (Some [''fuel_efficiency'']) ''dictionary_list''
     (Some ([[(''year'', Lit (VInt 0))], [(''maker'', Lit (VStr ''Others''))]]
            @ [(''year'', Lit (VInt 0)), (''maker'', Lit (VStr ''Others''))]
            # [[(''no_such_column'', Lit (VInt 1))]]))
     = Inr (RowList [[(''fuel_efficiency'', VInt 7)]])"
proof -
  let ?c = "[(''year'', Lit (VInt 2020)), (''maker'', Lit (VStr ''Ford''))]"
  let ?oc = "Some [''fuel_efficiency'']"
  have p: "perform_lookup (DataFrame vehicle_table) (Dict ?c) ?oc ''dictionary_list''
           = Inr (RowList [])"
    by (simp add: perform_lookup_def vehicle_table_def select_rows_def cell_def)
  have e: "\<forall>F \<in> set [[(''year'', Lit (VInt 0))], [(''maker'', Lit (VStr ''Others''))]].
      perform_lookup (DataFrame vehicle_table) (Dict (dict_update ?c F)) ?oc ''dictionary_list''
        = Inr (RowList [])"
    by (simp add: perform_lookup_def vehicle_table_def select_rows_def cell_def dict_update_def)
  have h: "perform_lookup (DataFrame vehicle_table)
        (Dict (dict_update ?c [(''year'', Lit (VInt 0)), (''maker'', Lit (VStr ''Others''))]))
        ?oc ''dictionary_list'' = Inr (RowList [[(''fuel_efficiency'', VInt 7)]])"
    by (simp add: perform_lookup_def vehicle_table_def select_rows_def cell_def dict_update_def
        row_output_def dict_from_def)
  from lookup_fallback_order [OF p e] h p e show ?thesis by simp
qed

subsection \<open>Errors inside the lookup\<close>

lemma py_cmp_caught: "py_cmp nop sop a b = Inl e \<Longrightarrow> caught e"
  by (cases "(nop, sop, a, b)" rule: py_cmp.cases) (auto simp: caught_def split: option.splits)

lemma get_column_caught: "get_column df c = Inl e \<Longrightarrow> caught e"
  by (cases c) (auto simp: caught_def split: if_splits)

lemma apply_operator_caught: "apply_operator df c operator v = Inl e \<Longrightarrow> caught e"
  unfolding apply_operator_def py_gt_def py_lt_def py_ge_def py_le_def
  by (auto simp: ebind_eq_Inl caught_def split: if_splits
      dest!: emap_Inl get_column_caught py_cmp_caught)

lemma criteria_mask_caught: "criteria_mask df c = Inl e \<Longrightarrow> caught e"
  by (cases "(df, c)" rule: criteria_mask.cases)
    (auto simp: ebind_eq_Inl simp del: get_column.simps
      dest: apply_operator_caught get_column_caught)

lemma combine_criteria_caught: "combine_criteria df cs m = Inl e \<Longrightarrow> caught e"
  by (induction cs arbitrary: m) (auto simp: ebind_eq_Inl dest: criteria_mask_caught)

lemma row_output_caught: "row_output df oc r = Inl e \<Longrightarrow> caught e"
  by (auto simp: row_output_def ebind_eq_Inl caught_def split: option.splits if_splits
      dest!: emap_Inl)

lemma perform_lookup_caught: "perform_lookup df criteria oc fmt = Inl e \<Longrightarrow> caught e"
  unfolding perform_lookup_def
  by (auto simp: ebind_eq_Inl caught_def Let_def
      split: df_arg.splits criteria_arg.splits option.splits if_splits
      dest!: combine_criteria_caught row_output_caught emap_Inl)

lemma truth_of_result_caught: "truth_of_result r = Inl e \<Longrightarrow> caught e"
  by (cases r) (auto simp: caught_def)

lemma fallback_loop_caught: "fallback_loop df cs oc fmt fs = Inl e \<Longrightarrow> caught e"
  by (induction fs)
    (auto simp: ebind_eq_Inl Let_def split: if_splits
      dest: perform_lookup_caught truth_of_result_caught)

lemma lookup_try_caught: "lookup_try df criteria oc fmt fb = Inl e \<Longrightarrow> caught e"
proof (cases criteria)
  case NotDict
  then have "lookup_try df criteria oc fmt fb = Inl TypeError"
    by (cases df) (simp_all add: lookup_try_def perform_lookup_def)
  then show "lookup_try df criteria oc fmt fb = Inl e \<Longrightarrow> caught e"
    by (simp add: caught_def)
next
  case (Dict cs)
  then show "lookup_try df criteria oc fmt fb = Inl e \<Longrightarrow> caught e"
    unfolding lookup_try_def
    by (auto simp: ebind_eq_Inl split: if_splits option.splits list.splits
        dest: perform_lookup_caught truth_of_result_caught fallback_loop_caught)
qed

lemma lookup_error_empty:
  "lookup_try df criteria oc fmt fb = Inl e \<Longrightarrow>
   lookup df criteria oc fmt fb = Inr (empty_result fmt)"
  by (simp add: lookup_def lookup_try_caught)

lemma lookup_returns: "\<exists>r. lookup df criteria oc fmt fb = Inr r"
  by (cases "lookup_try df criteria oc fmt fb") (simp_all add: lookup_def lookup_try_caught)

text \<open>
  An attempt that raises ends the lookup: the attempts after it are not tried, and the
  result is the empty list, as for every error of the \<open>try\<close> block.
\<close>

lemma lookup_fallback_error:
  assumes primary: "perform_lookup df (Dict criteria) oc ''dictionary_list'' = Inr (RowList [])"
    and earlier: "\<forall>F \<in> set pre.
       perform_lookup df (Dict (dict_update criteria F)) oc ''dictionary_list'' = Inr (RowList [])"
    and raises: "perform_lookup df (Dict (dict_update criteria F)) oc ''dictionary_list'' = Inl e"
  shows "lookup df (Dict criteria) oc ''dictionary_list'' (Some (pre @ F # post)) = Inr (RowList [])"
proof -
  have "fallback_loop df criteria oc ''dictionary_list'' (pre @ F # post) = Inl e"
    using raises by (simp add: fallback_loop_misses [OF earlier])
  then have "lookup_try df (Dict criteria) oc ''dictionary_list'' (Some (pre @ F # post)) = Inl e"
    by (simp add: lookup_try_fallback [OF primary])
  then show ?thesis
    by (simp add: lookup_error_empty empty_result_def)
qed

lemma perform_lookup_dataframe:
  "perform_lookup df criteria oc ''dataframe'' = Inr r \<Longrightarrow> \<exists>d. r = Frame d"
  unfolding perform_lookup_def
  by (auto simp: ebind_def Let_def
      split: df_arg.splits criteria_arg.splits option.splits if_splits sum.splits)

lemma lookup_try_dataframe: "\<exists>e. lookup_try df criteria oc ''dataframe'' fb = Inl e"
proof (cases "perform_lookup df criteria oc ''dataframe''")
  case (Inl e)
  then show ?thesis by (simp add: lookup_try_def)
next
  case (Inr r)
  then obtain d where "r = Frame d" using perform_lookup_dataframe by blast
  with Inr show ?thesis by (simp add: lookup_try_def)
qed

text \<open>
  In the \<open>dataframe\<close> format the truth value of the result is always asked for, so the
  \<open>ValueError\<close> of pandas is always raised and caught: every call returns the empty
  table.
\<close>

lemma lookup_dataframe_empty:
  "lookup df criteria oc ''dataframe'' fb = Inr (Frame \<lparr>columns = [], rows = []\<rparr>)"
  using lookup_try_dataframe [of df criteria oc fb]
    lookup_error_empty [of df criteria oc "''dataframe''" fb]
  by (auto simp: empty_result_def)

text \<open>
  Claim C3. In the \<open>dataframe\<close> format a lookup by equality should return the table of
  the matching rows. On a table of one row that matches, the code returns the empty
  table.
\<close>

theorem lookup_dataframe_format_lost:
  "lookup (DataFrame \<lparr>columns = [''a''], rows = [[(''a'', VInt 1)]]\<rparr>)
     (Dict [(''a'', Lit (VInt 1))]) None ''dataframe'' None
   = Inr (Frame \<lparr>columns = [], rows = []\<rparr>)"
  by (simp add: lookup_def lookup_try_def perform_lookup_def select_rows_def cell_def
      caught_def empty_result_def)

lemma failing_criterion_raises: "failing_criterion df c \<Longrightarrow> \<exists>e. criteria_mask df c = Inl e"
  by (cases "(df, c)" rule: failing_criterion.cases)
    (auto simp: apply_operator_def valid_operator_def known_column_def split: val.splits)

lemma combine_criteria_raises:
  "c \<in> set cs \<Longrightarrow> failing_criterion df c \<Longrightarrow> \<exists>e. combine_criteria df cs m = Inl e"
proof (induction cs arbitrary: m)
  case Nil
  then show ?case by simp
next
  case (Cons a cs)
  show ?case
  proof (cases "criteria_mask df a")
    case (Inl e)
    then show ?thesis by simp
  next
    case (Inr m')
    with Cons.prems failing_criterion_raises have "c \<in> set cs" by fastforce
    with Cons.IH Cons.prems(2) Inr show ?thesis by simp
  qed
qed

text \<open>
  Claim C4. A criterion that names an unknown column, carries an invalid comparator or
  is a tuple of a length other than 2 or 3 makes the lookup return the empty result of
  the requested format; so does every error raised inside the \<open>try\<close> block, and no
  error leaves \<open>lookup\<close>.
\<close>

theorem lookup_failure_empty:
  "((\<exists>c \<in> set cs. failing_criterion d c) \<longrightarrow>
      lookup (DataFrame d) (Dict cs) output_columns output_format fallback_criteria
        = Inr (empty_result output_format)) \<and>
   (\<forall>e. lookup_try df criteria output_columns output_format fallback_criteria = Inl e \<longrightarrow>
      lookup df criteria output_columns output_format fallback_criteria
        = Inr (empty_result output_format)) \<and>
   (\<exists>r. lookup df criteria output_columns output_format fallback_criteria = Inr r)"
proof (intro conjI impI allI)
  assume "\<exists>c \<in> set cs. failing_criterion d c"
  then obtain c where "c \<in> set cs" "failing_criterion d c" by blast
  then obtain e where "combine_criteria d cs (replicate (length (rows d)) True) = Inl e"
    using combine_criteria_raises by blast
  then have "lookup_try (DataFrame d) (Dict cs) output_columns output_format fallback_criteria
               = Inl e"
    by (simp add: lookup_try_def perform_lookup_def)
  then show "lookup (DataFrame d) (Dict cs) output_columns output_format fallback_criteria
       = Inr (empty_result output_format)"
    by (rule lookup_error_empty)
next
  fix e
  assume "lookup_try df criteria output_columns output_format fallback_criteria = Inl e"
  then show "lookup df criteria output_columns output_format fallback_criteria
        = Inr (empty_result output_format)"
    by (rule lookup_error_empty)
next
  show "\<exists>r. lookup df criteria output_columns output_format fallback_criteria = Inr r"
    by (rule lookup_returns)
qed

theorem lookup_failure_empty_witness:
  "(\<exists>c \<in> set [(''fuel_type'', Lit (VStr ''Diesel'')), (''year'', Tup [VStr ''between'', VInt 1])].
      failing_criterion fuel_table c) \<and>
   lookup (DataFrame fuel_table)
     (Dict [(''fuel_type'', Lit (VStr ''Diesel'')), (''year'', Tup [VStr ''between'', VInt 1])])
     None ''dictionary_list'' None = Inr (RowList []) \<and>
   (\<exists>c \<in> set [(''engine'', Lit (VInt 3))]. failing_criterion fuel_table c) \<and>
   lookup (DataFrame fuel_table) (Dict [(''engine'', Lit (VInt 3))])
     None ''dataframe'' None = Inr (Frame \<lparr>columns = [], rows = []\<rparr>) \<and>
   (\<exists>c \<in> set [(''fuel_type'', Tup [VStr ''=''])]. failing_criterion fuel_table c) \<and>
   lookup (DataFrame fuel_table) (Dict [(''fuel_type'', Tup [VStr ''=''])])
     None ''dictionary_list'' None = Inr (RowList [])"
proof -
  have a: "\<exists>c \<in> set [(''fuel_type'', Lit (VStr ''Diesel'')),
                      (''year'', Tup [VStr ''between'', VInt 1])]. failing_criterion fuel_table c"
    by (simp add: valid_operator_def)
  have b: "\<exists>c \<in> set [(''engine'', Lit (VInt 3))]. failing_criterion fuel_table c"
    by (simp add: fuel_table_def)
  have c: "\<exists>c \<in> set [(''fuel_type'', Tup [VStr ''=''])]. failing_criterion fuel_table c"
    by simp
  from a b c
    lookup_failure_empty [of "[(''fuel_type'', Lit (VStr ''Diesel'')),
        (''year'', Tup [VStr ''between'', VInt 1])]" fuel_table None "''dictionary_list''" None]
    lookup_failure_empty [of "[(''engine'', Lit (VInt 3))]" fuel_table None "''dataframe''" None]
    lookup_failure_empty [of "[(''fuel_type'', Tup [VStr ''=''])]" fuel_table None
        "''dictionary_list''" None]
  show ?thesis by (simp add: empty_result_def)
qed

text \<open>
  Claim C5, as amended. A table argument that is no DataFrame, or a criteria argument
  that is no dict, raises \<open>TypeError\<close> inside \<open>_perform_lookup\<close>; \<open>lookup\<close> catches
  it and returns the empty result of the requested format.
\<close>

theorem lookup_type_error_caught:
  assumes "df = NotDataFrame \<or> criteria = NotDict"
  shows "perform_lookup df criteria output_columns output_format = Inl TypeError \<and>
         lookup df criteria output_columns output_format fallback_criteria
           = Inr (empty_result output_format)"
proof -
  have p: "perform_lookup df criteria output_columns output_format = Inl TypeError"
    using assms by (cases df) (auto simp: perform_lookup_def)
  then have "lookup_try df criteria output_columns output_format fallback_criteria = Inl TypeError"
    by (simp add: lookup_try_def)
  with p show ?thesis by (simp add: lookup_error_empty)
qed

theorem lookup_type_error_caught_witness:
  "perform_lookup (DataFrame fuel_table) NotDict None ''dictionary_list'' = Inl TypeError \<and>
   lookup (DataFrame fuel_table) NotDict None ''dictionary_list''
     (Some [[(''fuel_type'', Lit (VStr ''Any''))]]) = Inr (RowList [])"
  using lookup_type_error_caught [of "DataFrame fuel_table" NotDict None "''dictionary_list''"
      "Some [[(''fuel_type'', Lit (VStr ''Any''))]]"]
  by (simp add: empty_result_def)

text \<open>
  The claim as the specification states it fails: a call whose table is no DataFrame
  returns the empty list, it does not raise \<open>TypeError\<close>.
\<close>

theorem lookup_type_error_counterexample:
  "lookup NotDataFrame (Dict []) None ''dictionary_list'' None = Inr (RowList []) \<and>
   lookup NotDataFrame (Dict []) None ''dictionary_list'' None \<noteq> Inl TypeError"
  by (simp add: lookup_def lookup_try_def perform_lookup_def caught_def empty_result_def)

section \<open>Properties of the emission aggregator\<close>

subsection \<open>The end-to-end example\<close>

lemma lookup_no_rows:
  "lookup (DataFrame (no_rows cs)) (Dict criteria) oc ''dictionary_list'' fb = Inr (RowList [])"
proof -
  have sel: "select_rows (no_rows cs) m = []" for m
    by (simp add: select_rows_def no_rows_def)
  have p: "perform_lookup (DataFrame (no_rows cs)) (Dict c) oc ''dictionary_list'' = Inr r
           \<Longrightarrow> r = RowList []" for c r
    by (auto simp: perform_lookup_def ebind_eq_Inr sel)
  have f: "fallback_loop (DataFrame (no_rows cs)) c oc ''dictionary_list'' fs = Inr x
           \<Longrightarrow> x = None" for c fs x
    by (induction fs) (auto simp: ebind_eq_Inr Let_def dest!: p split: if_splits)
  show ?thesis
  proof (cases "lookup_try (DataFrame (no_rows cs)) (Dict criteria) oc ''dictionary_list'' fb")
    case (Inl e)
    then show ?thesis by (simp add: lookup_error_empty empty_result_def)
  next
    case (Inr r)
    then have "r = RowList []"
      unfolding lookup_try_def
      by (auto simp: ebind_eq_Inr empty_result_def dest!: p f
          split: if_splits option.splits list.splits)
    with Inr show ?thesis by (simp add: lookup_def)
  qed
qed

lemma item_cattle:
  "k \<in> set operation_columns \<Longrightarrow>
   item cattle_row k = Inr (cell [(''operation_id'', VInt 1), (''livestock_type'', VStr ''Cattle''),
                                  (''livestock_count'', VInt 10)] k)"
  by (simp add: item_def cattle_row_def)

lemma cattle_secondary:
  "lookup_secondary_data env cattle_tables cattle_row =
     Inr \<lparr>annual_leakage_rate = VInt 0, refrigerant_gwp_value = VInt 0,
          tru_annual_leakage_rate = VInt 0, tru_refrigerant_gwp_value = VInt 0,
          emission_factor_diesel_tru = VInt 0, tru_power_rating = VInt 0,
          average_tru_load_factor = VInt 0, tru_annual_hours = VInt 0,
          tru_plug_in_fraction_of_hours = VInt 0, emission_per_unit_livestock = VFloat 2.5,
          emission_per_unit_fertilizer = VInt 0, emission_per_unit_waste = VInt 0,
          vehicle_fuel_efficiency = VInt 0, fuel_emission_factor_current = VInt 0,
          fuel_emission_factor_forecast = VInt 0\<rparr>"
proof -
  have farm: "lookup_value (farm_emissions cattle_tables) [(''subcategory'', Lit v)]
                ''emission_per_unit''
              = Inr (if py_eq (VStr ''Cattle'') v then VFloat 2.5 else VInt 0)" for v
    by (simp add: lookup_value_def lookup_def lookup_try_def perform_lookup_def caught_def
        cattle_tables_def select_rows_def cell_def row_output_def dict_from_def dict_update_def
        empty_result_def)
  have v: "vehicle_efficiency (vehicle_interventions cattle_tables) cattle_row = Inr (VInt 0)"
    by (simp add: vehicle_efficiency_def item_cattle operation_columns_def cattle_tables_def
        lookup_no_rows)
  have f: "fuel_factors env (fuel_data cattle_tables) cattle_row = Inr (VInt 0, VInt 0)"
    by (simp add: fuel_factors_def fuel_lookup_def item_cattle operation_columns_def
        cattle_tables_def lookup_no_rows cell_def)
  show ?thesis
    unfolding lookup_secondary_data_def
    by (simp add: item_cattle operation_columns_def v f farm cell_def)
      (simp add: cattle_tables_def lookup_value_def lookup_no_rows)
qed

lemma cattle_quantities:
  "preprocess env cattle_row =
     Inr \<lparr>fuel_amount = VInt 0, refrigerant_charge = VInt 0, number_of_refrigerators = VInt 0,
          operating_distance = VInt 0, tru_number_of_vehicle_units = VInt 0,
          tru_refrigerant_charge = VInt 0, livestock_count = VInt 10,
          fertilizer_amount = VInt 0, waste_amount = VInt 0\<rparr>"
  by (simp add: preprocess_def numeric_field_def item_cattle operation_columns_def cell_def
      isna_def)

lemma cattle_record:
  "process_row env cattle_tables cattle_row =
     Inr \<lparr>operation_id = VInt 1, fuel_emissions = VFloat 0, vehicle_emissions = VInt 0,
          refrigerant_emissions = VInt 0, livestock_emissions = VFloat 25,
          fertilizer_emissions = VInt 0, waste_emissions = VInt 0, tru_emissions = VInt 0,
          total_emissions = VFloat 25\<rparr>"
  by (simp add: process_row_def cattle_secondary cattle_quantities calculate_emissions_def
      fuel_emissions_of_def vehicle_emissions_of_def tru_emissions_of_def
      item_cattle operation_columns_def cell_def)

lemma cattle_run:
  "emap (\<lambda>r. process_row env cattle_tables \<lparr>labels = columns cattle_operations, entries = r\<rparr>)
     (rows cattle_operations) =
   Inr [\<lparr>operation_id = VInt 1, fuel_emissions = VFloat 0, vehicle_emissions = VInt 0,
         refrigerant_emissions = VInt 0, livestock_emissions = VFloat 25,
         fertilizer_emissions = VInt 0, waste_emissions = VInt 0, tru_emissions = VInt 0,
         total_emissions = VFloat 25\<rparr>]"
proof -
  have "\<lparr>labels = columns cattle_operations,
         entries = [(''operation_id'', VInt 1), (''livestock_type'', VStr ''Cattle''),
                    (''livestock_count'', VInt 10)]\<rparr> = cattle_row"
    by (simp add: cattle_operations_def cattle_row_def)
  then show ?thesis
    by (simp add: cattle_operations_def cattle_record)
qed

text \<open>
  Claim C10. With the farm table of one row (Cattle, 2.5 per unit), every other
  reference table without rows, and one operation of 10 cattle, the result is one
  record: livestock emissions 25.0, the six other subtotals 0, total 25.0.
\<close>

theorem cattle_end_to_end:
  "calculate_annual_emissions env cattle_operations cattle_tables =
     Inr [\<lparr>operation_id = VInt 1, fuel_emissions = VFloat 0, vehicle_emissions = VInt 0,
           refrigerant_emissions = VInt 0, livestock_emissions = VFloat 25,
           fertilizer_emissions = VInt 0, waste_emissions = VInt 0, tru_emissions = VInt 0,
           total_emissions = VFloat 25\<rparr>]"
  by (simp only: calculate_annual_emissions_def cattle_run)

subsection \<open>The fuel example\<close>

lemma show_int_2024: "show_int 2024 = ''2024''"
  by (simp add: show_int_def)

lemma item_fuel_example:
  "k \<in> set operation_columns \<Longrightarrow>
   item fuel_example_row k =
     Inr (cell [(''operation_id'', VInt 7), (''entity'', VStr ''facility''),
                (''fuel_type'', VStr ''Diesel''), (''fuel_amount'', VInt 100),
                (''operating_distance'', VInt 500),
                (''state_or_province'', VStr ''CA''),
                (''target_completion_year'', VInt 2024)] k)"
  by (simp add: item_def fuel_example_row_def)

lemma fuel_example_lookup:
  "fuel_lookup year_2024 (fuel_data fuel_example_tables) fuel_example_row
   = Inr (RowList [[(''co2e_2024'', VFloat 1.2)]])"
  by (simp add: fuel_lookup_def item_fuel_example operation_columns_def cell_def
      fuel_example_tables_def cattle_tables_def current_year_co2e_def target_year_co2e_def
      year_2024_def show_int_2024 lookup_def lookup_try_def perform_lookup_def
      select_rows_def row_output_def dict_from_def dict_update_def)

lemma fuel_example_factors:
  "fuel_factors year_2024 (fuel_data fuel_example_tables) fuel_example_row
   = Inr (VFloat 1.2, VFloat 1.2)"
  unfolding fuel_factors_def fuel_example_lookup
  by (simp add: item_fuel_example operation_columns_def cell_def
      current_year_co2e_def target_year_co2e_def year_2024_def show_int_2024)

lemma fuel_example_secondary_data:
  "lookup_secondary_data year_2024 fuel_example_tables fuel_example_row
   = Inr fuel_example_secondary"
proof -
  have farm: "lookup_value (farm_emissions fuel_example_tables) [(''subcategory'', Lit VNaN)]
                ''emission_per_unit'' = Inr (VInt 0)"
    by (simp add: lookup_value_def lookup_def lookup_try_def perform_lookup_def caught_def
        fuel_example_tables_def cattle_tables_def select_rows_def cell_def row_output_def
        dict_from_def dict_update_def empty_result_def)
  have v: "vehicle_efficiency (vehicle_interventions fuel_example_tables) fuel_example_row
           = Inr (VInt 0)"
    by (simp add: vehicle_efficiency_def item_fuel_example operation_columns_def
        fuel_example_tables_def cattle_tables_def lookup_no_rows)
  show ?thesis
    unfolding lookup_secondary_data_def
    by (simp add: item_fuel_example operation_columns_def v fuel_example_factors farm cell_def
        fuel_example_secondary_def)
      (simp add: fuel_example_tables_def cattle_tables_def lookup_value_def lookup_no_rows)
qed

lemma fuel_example_quantities:
  "preprocess year_2024 fuel_example_row =
     Inr \<lparr>fuel_amount = VInt 100, refrigerant_charge = VInt 0, number_of_refrigerators = VInt 0,
          operating_distance = VInt 500, tru_number_of_vehicle_units = VInt 0,
          tru_refrigerant_charge = VInt 0, livestock_count = VInt 0,
          fertilizer_amount = VInt 0, waste_amount = VInt 0\<rparr>"
  by (simp add: preprocess_def numeric_field_def item_fuel_example operation_columns_def cell_def
      isna_def year_2024_def)

lemma fuel_example_record:
  "process_row year_2024 fuel_example_tables fuel_example_row = Inr fuel_example_result"
  by (simp add: process_row_def fuel_example_secondary_data fuel_example_quantities
      calculate_emissions_def fuel_emissions_of_def vehicle_emissions_of_def tru_emissions_of_def
      item_fuel_example operation_columns_def cell_def fuel_example_secondary_def
      fuel_example_result_def)

subsection \<open>The guard against division by zero\<close>

lemma ebind_safe:
  "m \<noteq> Inl ZeroDivisionError \<Longrightarrow> (\<And>x. f x \<noteq> Inl ZeroDivisionError) \<Longrightarrow>
   ebind m f \<noteq> Inl ZeroDivisionError"
  by (cases m) simp_all

lemma item_safe: "item row k \<noteq> Inl ZeroDivisionError"
  by (simp add: item_def)

lemma lookup_safe: "lookup df criteria oc fmt fb \<noteq> Inl ZeroDivisionError"
  using lookup_returns [of df criteria oc fmt fb] by auto

lemma first_value_safe: "first_value found k \<noteq> Inl ZeroDivisionError"
  by (cases "(found, k)" rule: first_value.cases) (simp_all split: option.splits)

lemma first_get_safe: "first_get found k \<noteq> Inl ZeroDivisionError"
  by (cases "(found, k)" rule: first_get.cases) (simp_all split: option.splits)

lemma lookup_value_safe: "lookup_value table criteria k \<noteq> Inl ZeroDivisionError"
  unfolding lookup_value_def by (intro ebind_safe lookup_safe first_value_safe)

lemma vehicle_efficiency_safe: "vehicle_efficiency table row \<noteq> Inl ZeroDivisionError"
  unfolding vehicle_efficiency_def
  by (intro ebind_safe item_safe lookup_safe first_value_safe)

lemma fuel_lookup_safe: "fuel_lookup env table row \<noteq> Inl ZeroDivisionError"
  unfolding fuel_lookup_def Let_def
  by (intro ebind_safe item_safe lookup_safe) (simp add: item_safe ebind_safe)

lemma fuel_factors_safe: "fuel_factors env table row \<noteq> Inl ZeroDivisionError"
  unfolding fuel_factors_def
  by (intro ebind_safe item_safe fuel_lookup_safe first_get_safe) (simp_all add: first_get_safe)

lemma lookup_secondary_data_safe:
  "lookup_secondary_data env tables row \<noteq> Inl ZeroDivisionError"
  unfolding lookup_secondary_data_def
  by (intro ebind_safe item_safe lookup_safe lookup_value_safe first_value_safe
      vehicle_efficiency_safe fuel_factors_safe) (simp split: prod.split)

lemma numeric_field_safe: "numeric_field env row k \<noteq> Inl ZeroDivisionError"
  unfolding numeric_field_def by (intro ebind_safe item_safe) (simp add: Let_def)

lemma preprocess_safe: "preprocess env row \<noteq> Inl ZeroDivisionError"
  unfolding preprocess_def by (intro ebind_safe numeric_field_safe) simp

lemma py_add_safe: "py_add a b \<noteq> Inl ZeroDivisionError"
  by (cases "(a, b)" rule: py_add.cases) (simp_all split: option.splits)

lemma py_mul_safe: "py_mul a b \<noteq> Inl ZeroDivisionError"
  by (cases "(a, b)" rule: py_mul.cases) (simp_all split: option.splits)

lemma py_product_safe: "py_product a bs \<noteq> Inl ZeroDivisionError"
  by (induction bs arbitrary: a) (simp_all add: ebind_safe py_mul_safe)

lemma py_sum_safe: "py_sum a bs \<noteq> Inl ZeroDivisionError"
  by (induction bs arbitrary: a) (simp_all add: ebind_safe py_add_safe)

lemma py_div_two_safe: "py_div a (VInt 2) \<noteq> Inl ZeroDivisionError"
  by (cases a) simp_all

lemma py_div_truth_safe: "py_truth b \<Longrightarrow> py_div a b \<noteq> Inl ZeroDivisionError"
  by (cases "(a, b)" rule: py_div.cases) (auto split: option.splits)

lemma fuel_emissions_of_safe: "fuel_emissions_of a f c \<noteq> Inl ZeroDivisionError"
  unfolding fuel_emissions_of_def by (intro ebind_safe py_add_safe py_mul_safe py_div_two_safe)

lemma vehicle_emissions_of_safe: "vehicle_emissions_of d e f c \<noteq> Inl ZeroDivisionError"
proof (cases "py_truth e")
  case True
  then show ?thesis
    unfolding vehicle_emissions_of_def
    by (simp add: ebind_safe py_div_truth_safe py_add_safe py_div_two_safe py_mul_safe)
next
  case False
  then show ?thesis by (simp add: vehicle_emissions_of_def)
qed

lemma tru_emissions_of_safe: "tru_emissions_of s q \<noteq> Inl ZeroDivisionError"
  unfolding tru_emissions_of_def by (intro ebind_safe py_product_safe py_add_safe py_mul_safe)

lemma calculate_emissions_safe: "calculate_emissions row s q \<noteq> Inl ZeroDivisionError"
  unfolding calculate_emissions_def
  by (intro ebind_safe fuel_emissions_of_safe vehicle_emissions_of_safe py_product_safe
      py_mul_safe tru_emissions_of_safe py_sum_safe item_safe) simp

lemma process_row_safe: "process_row env tables row \<noteq> Inl ZeroDivisionError"
  unfolding process_row_def
  by (intro ebind_safe lookup_secondary_data_safe preprocess_safe calculate_emissions_safe)

lemma py_eq_zero_falsy: "py_eq e (VInt 0) \<Longrightarrow> \<not> py_truth e"
  by (cases e) auto

lemma calculate_emissions_vehicle:
  "calculate_emissions row s q = Inr r \<Longrightarrow>
   vehicle_emissions_of (operating_distance q) (vehicle_fuel_efficiency s)
     (fuel_emission_factor_forecast s) (fuel_emission_factor_current s)
   = Inr (vehicle_emissions r)"
  unfolding calculate_emissions_def by (auto simp: ebind_eq_Inr)

lemma calculate_emissions_fuel:
  "calculate_emissions row s q = Inr r \<Longrightarrow>
   fuel_emissions_of (fuel_amount q)
     (fuel_emission_factor_forecast s) (fuel_emission_factor_current s)
   = Inr (fuel_emissions r)"
  unfolding calculate_emissions_def by (auto simp: ebind_eq_Inr)

text \<open>
  Claim C8. When the vehicle fuel efficiency that the lookups resolve is 0, the vehicle
  emissions of the record are 0, whatever the operating distance and the fuel factors
  are, and the row raises no \<open>ZeroDivisionError\<close>.
\<close>

theorem zero_efficiency_vehicle_emissions:
  assumes "lookup_secondary_data env tables row = Inr s"
    and "py_eq (vehicle_fuel_efficiency s) (VInt 0)"
  shows "process_row env tables row \<noteq> Inl ZeroDivisionError \<and>
         (\<forall>out. process_row env tables row = Inr out \<longrightarrow>
            vehicle_emissions out = VInt 0)"
proof (intro conjI allI impI)
  show "process_row env tables row \<noteq> Inl ZeroDivisionError"
    by (rule process_row_safe)
next
  fix out
  assume "process_row env tables row = Inr out"
  with assms(1) obtain q where "calculate_emissions row s q = Inr out"
    by (auto simp: process_row_def ebind_eq_Inr)
  then have "vehicle_emissions_of (operating_distance q) (vehicle_fuel_efficiency s)
     (fuel_emission_factor_forecast s) (fuel_emission_factor_current s)
     = Inr (vehicle_emissions out)"
    by (rule calculate_emissions_vehicle)
  with py_eq_zero_falsy [OF assms(2)] show "vehicle_emissions out = VInt 0"
    by (simp add: vehicle_emissions_of_def)
qed

theorem zero_efficiency_vehicle_emissions_witness:
  "lookup_secondary_data year_2024 fuel_example_tables fuel_example_row
     = Inr fuel_example_secondary \<and>
   py_eq (vehicle_fuel_efficiency fuel_example_secondary) (VInt 0) \<and>
   numeric_field year_2024 fuel_example_row ''operating_distance'' = Inr (VInt 500) \<and>
   process_row year_2024 fuel_example_tables fuel_example_row = Inr fuel_example_result \<and>
   process_row year_2024 fuel_example_tables fuel_example_row \<noteq> Inl ZeroDivisionError \<and>
   vehicle_emissions fuel_example_result = VInt 0"
proof -
  have z: "py_eq (vehicle_fuel_efficiency fuel_example_secondary) (VInt 0)"
    by (simp add: fuel_example_secondary_def)
  have d: "numeric_field year_2024 fuel_example_row ''operating_distance'' = Inr (VInt 500)"
    by (simp add: numeric_field_def item_fuel_example operation_columns_def cell_def isna_def)
  from zero_efficiency_vehicle_emissions [OF fuel_example_secondary_data z]
    fuel_example_secondary_data fuel_example_record z d
  show ?thesis by simp
qed

subsection \<open>The total\<close>













subsection \<open>The forecast factor\<close>

lemma item_float_year:
  "k \<in> set operation_columns \<Longrightarrow>
   item float_year_row k =
     Inr (cell [(''operation_id'', VInt 8), (''entity'', VStr ''facility''),
                (''fuel_type'', VStr ''Diesel''), (''fuel_amount'', VInt 100),
                (''state_or_province'', VStr ''CA''),
                (''target_completion_year'', VFloat 2024)] k)"
  by (simp add: item_def float_year_row_def)

lemma drift_lookup:
  "fuel_lookup year_2024 (fuel_data drift_tables) float_year_row
   = Inr (RowList [[(''co2e_2024'', VFloat 1.2), (''co2e_2024.0'', VInt 3)],
                   [(''co2e_2024'', VFloat 1.3), (''co2e_2024.0'', VInt 4)]])"
  by (simp add: fuel_lookup_def item_float_year operation_columns_def cell_def
      drift_tables_def cattle_tables_def current_year_co2e_def target_year_co2e_def
      year_2024_def show_int_2024 lookup_def lookup_try_def perform_lookup_def
      select_rows_def row_output_def dict_from_def dict_update_def)

lemma drift_factors:
  "fuel_factors year_2024 (fuel_data drift_tables) float_year_row = Inr (VFloat 1.2, VInt 3)"
  unfolding fuel_factors_def drift_lookup
  by (simp add: item_float_year operation_columns_def cell_def
      current_year_co2e_def target_year_co2e_def year_2024_def show_int_2024)

lemma drift_secondary_data:
  "lookup_secondary_data year_2024 drift_tables float_year_row
   = Inr (fuel_example_secondary\<lparr>fuel_emission_factor_forecast := VInt 3\<rparr>)"
proof -
  have farm: "lookup_value (farm_emissions drift_tables) [(''subcategory'', Lit VNaN)]
                ''emission_per_unit'' = Inr (VInt 0)"
    by (simp add: lookup_value_def lookup_def lookup_try_def perform_lookup_def caught_def
        drift_tables_def cattle_tables_def select_rows_def cell_def row_output_def
        dict_from_def dict_update_def empty_result_def)
  have v: "vehicle_efficiency (vehicle_interventions drift_tables) float_year_row
           = Inr (VInt 0)"
    by (simp add: vehicle_efficiency_def item_float_year operation_columns_def
        drift_tables_def cattle_tables_def lookup_no_rows)
  show ?thesis
    unfolding lookup_secondary_data_def
    by (simp add: item_float_year operation_columns_def v drift_factors farm cell_def
        fuel_example_secondary_def)
      (simp add: drift_tables_def cattle_tables_def lookup_value_def lookup_no_rows)
qed

lemma float_year_quantities:
  "preprocess year_2024 float_year_row =
     Inr \<lparr>fuel_amount = VInt 100, refrigerant_charge = VInt 0, number_of_refrigerators = VInt 0,
          operating_distance = VInt 0, tru_number_of_vehicle_units = VInt 0,
          tru_refrigerant_charge = VInt 0, livestock_count = VInt 0,
          fertilizer_amount = VInt 0, waste_amount = VInt 0\<rparr>"
  by (simp add: preprocess_def numeric_field_def item_float_year operation_columns_def cell_def
      isna_def year_2024_def)

text \<open>
  The claim as the specification states it fails. The target year of the row is the
  float 2024.0, which equals the current year 2024, and two rows of the fuel table
  match: the current-year factor is read from the column \<open>co2e_2024\<close> (1.2), the
  forecast factor from the column \<open>co2e_2024.0\<close> (3), and the fuel emissions are
  \<open>100 * (3 + 1.2) / 2 = 210\<close>.
\<close>

theorem forecast_factor_counterexample:
  "item float_year_row ''target_completion_year'' = Inr (VFloat 2024) \<and>
   py_eq (VFloat 2024) (VInt (current_year year_2024)) \<and>
   lookup_secondary_data year_2024 drift_tables float_year_row
     = Inr (fuel_example_secondary\<lparr>fuel_emission_factor_forecast := VInt 3\<rparr>) \<and>
   fuel_emission_factor_current (fuel_example_secondary\<lparr>fuel_emission_factor_forecast := VInt 3\<rparr>)
     = VFloat 1.2 \<and>
   fuel_emission_factor_forecast (fuel_example_secondary\<lparr>fuel_emission_factor_forecast := VInt 3\<rparr>)
     = VInt 3 \<and>
   process_row year_2024 drift_tables float_year_row = Inr drift_result \<and>
   fuel_emissions drift_result = VFloat 210"
proof -
  have "process_row year_2024 drift_tables float_year_row = Inr drift_result"
    by (simp add: process_row_def drift_secondary_data float_year_quantities
      calculate_emissions_def fuel_emissions_of_def vehicle_emissions_of_def tru_emissions_of_def
      item_float_year operation_columns_def cell_def fuel_example_secondary_def
      drift_result_def)
  moreover have "item float_year_row ''target_completion_year'' = Inr (VFloat 2024)"
    by (simp add: item_float_year operation_columns_def cell_def)
  moreover have "py_eq (VFloat 2024) (VInt (current_year year_2024))"
    by (simp add: year_2024_def)
  ultimately show ?thesis
    using drift_secondary_data by (simp add: fuel_example_secondary_def drift_result_def)
qed

lemma same_column: "target_year_co2e env (VInt (current_year env)) = current_year_co2e env"
  by (simp add: target_year_co2e_def current_year_co2e_def)

lemma fuel_factors_same:
  assumes f: "fuel_factors env table row = Inr (c, f)"
    and y: "item row ''target_completion_year'' = Inr y"
    and eq: "py_eq y (VInt (current_year env))"
    and how: "y = VInt (current_year env) \<or>
       (\<exists>found. fuel_lookup env table row = Inr found \<and> result_len found \<le> 1)"
  shows "f = c"
proof -
  from f y obtain found where
    found: "fuel_lookup env table row = Inr found"
    and c: "first_get found (current_year_co2e env) = Inr c"
    and g: "(if py_eq y (VInt (current_year env)) \<and> result_len found = 1 then Inr c
             else first_get found (target_year_co2e env y)) = Inr f"
    unfolding fuel_factors_def by (auto simp: ebind_eq_Inr)
  from how show ?thesis
  proof
    assume "y = VInt (current_year env)"
    with c g show ?thesis by (simp add: same_column split: if_splits)
  next
    assume "\<exists>found. fuel_lookup env table row = Inr found \<and> result_len found \<le> 1"
    with found have len: "result_len found \<le> 1" by simp
    show ?thesis
    proof (cases found)
      case (RowList l)
      show ?thesis
      proof (cases l)
        case Nil
        with RowList c g show ?thesis by (simp split: if_splits)
      next
        case (Cons d ds)
        with RowList len have "result_len found = 1" by simp
        with eq g show ?thesis by simp
      qed
    next
      case (Frame d)
      with c show ?thesis by simp
    qed
  qed
qed

lemma lookup_secondary_data_fuel:
  "lookup_secondary_data env tables row = Inr s \<Longrightarrow>
   fuel_factors env (fuel_data tables) row
     = Inr (fuel_emission_factor_current s, fuel_emission_factor_forecast s)"
  unfolding lookup_secondary_data_def
  by (auto simp: ebind_eq_Inr split: prod.splits)

lemma float_year_lookup:
  "fuel_lookup year_2024 (fuel_data fuel_example_tables) float_year_row = Inr (RowList [])"
  by (simp add: fuel_lookup_def item_float_year operation_columns_def cell_def
      fuel_example_tables_def cattle_tables_def current_year_co2e_def target_year_co2e_def
      year_2024_def show_int_2024 lookup_def lookup_try_def perform_lookup_def
      select_rows_def row_output_def dict_from_def dict_update_def empty_result_def)

lemma float_year_factors:
  "fuel_factors year_2024 (fuel_data fuel_example_tables) float_year_row = Inr (VInt 0, VInt 0)"
  unfolding fuel_factors_def float_year_lookup
  by (simp add: item_float_year operation_columns_def cell_def)

lemma float_year_secondary_data:
  "lookup_secondary_data year_2024 fuel_example_tables float_year_row
   = Inr (fuel_example_secondary\<lparr>fuel_emission_factor_current := VInt 0,
            fuel_emission_factor_forecast := VInt 0\<rparr>)"
proof -
  have farm: "lookup_value (farm_emissions fuel_example_tables) [(''subcategory'', Lit VNaN)]
                ''emission_per_unit'' = Inr (VInt 0)"
    by (simp add: lookup_value_def lookup_def lookup_try_def perform_lookup_def caught_def
        fuel_example_tables_def cattle_tables_def select_rows_def cell_def row_output_def
        dict_from_def dict_update_def empty_result_def)
  have v: "vehicle_efficiency (vehicle_interventions fuel_example_tables) float_year_row
           = Inr (VInt 0)"
    by (simp add: vehicle_efficiency_def item_float_year operation_columns_def
        fuel_example_tables_def cattle_tables_def lookup_no_rows)
  show ?thesis
    unfolding lookup_secondary_data_def
    by (simp add: item_float_year operation_columns_def v float_year_factors farm cell_def
        fuel_example_secondary_def)
      (simp add: fuel_example_tables_def cattle_tables_def lookup_value_def lookup_no_rows)
qed

text \<open>
  Claim C7, as amended. When the target year of the row equals the current year and
  either is that integer (so that both factors are read from the same column) or the
  fuel lookup returned at most one row, the forecast factor is the current-year factor,
  in the fuel and in the vehicle emissions; and in the fuel example (current year 2024,
  one matching row with factor 1.2, target year 2024, 100 units of fuel) the fuel
  emissions are \<open>100 * (1.2 + 1.2) / 2 = 120\<close>.
\<close>

theorem forecast_factor_of_current_year:
  "(lookup_secondary_data env tables row = Inr s \<and>
    item row ''target_completion_year'' = Inr y \<and>
    py_eq y (VInt (current_year env)) \<and>
    (y = VInt (current_year env) \<or>
     (\<exists>found. fuel_lookup env (fuel_data tables) row = Inr found \<and> result_len found \<le> 1)) \<longrightarrow>
    fuel_emission_factor_forecast s = fuel_emission_factor_current s \<and>
    (\<forall>out. process_row env tables row = Inr out \<longrightarrow>
       (\<exists>q. preprocess env row = Inr q \<and>
            fuel_emissions_of (fuel_amount q)
              (fuel_emission_factor_current s) (fuel_emission_factor_current s)
              = Inr (fuel_emissions out) \<and>
            vehicle_emissions_of (operating_distance q) (vehicle_fuel_efficiency s)
              (fuel_emission_factor_current s) (fuel_emission_factor_current s)
              = Inr (vehicle_emissions out)))) \<and>
   fuel_emissions_of (VInt 100) (VFloat 1.2) (VFloat 1.2) = Inr (VFloat 120) \<and>
   process_row year_2024 fuel_example_tables fuel_example_row = Inr fuel_example_result \<and>
   fuel_emissions fuel_example_result = VFloat 120"
proof (intro conjI impI allI)
  assume h: "lookup_secondary_data env tables row = Inr s \<and>
    item row ''target_completion_year'' = Inr y \<and>
    py_eq y (VInt (current_year env)) \<and>
    (y = VInt (current_year env) \<or>
     (\<exists>found. fuel_lookup env (fuel_data tables) row = Inr found \<and> result_len found \<le> 1))"
  then have "fuel_factors env (fuel_data tables) row
     = Inr (fuel_emission_factor_current s, fuel_emission_factor_forecast s)"
    by (simp add: lookup_secondary_data_fuel)
  with h show same: "fuel_emission_factor_forecast s = fuel_emission_factor_current s"
    using fuel_factors_same by blast
  fix out
  assume "process_row env tables row = Inr out"
  with h obtain q where q: "preprocess env row = Inr q"
    and c: "calculate_emissions row s q = Inr out"
    by (auto simp: process_row_def ebind_eq_Inr)
  from calculate_emissions_fuel [OF c] calculate_emissions_vehicle [OF c] q same
  show "\<exists>q. preprocess env row = Inr q \<and>
            fuel_emissions_of (fuel_amount q)
              (fuel_emission_factor_current s) (fuel_emission_factor_current s)
              = Inr (fuel_emissions out) \<and>
            vehicle_emissions_of (operating_distance q) (vehicle_fuel_efficiency s)
              (fuel_emission_factor_current s) (fuel_emission_factor_current s)
              = Inr (vehicle_emissions out)"
    by auto
next
  show "fuel_emissions_of (VInt 100) (VFloat 1.2) (VFloat 1.2) = Inr (VFloat 120)"
    by (simp add: fuel_emissions_of_def)
next
  show "process_row year_2024 fuel_example_tables fuel_example_row = Inr fuel_example_result"
    by (rule fuel_example_record)
next
  show "fuel_emissions fuel_example_result = VFloat 120"
    by (simp add: fuel_example_result_def)
qed

theorem forecast_factor_of_current_year_witness:
  "lookup_secondary_data year_2024 fuel_example_tables fuel_example_row
     = Inr fuel_example_secondary \<and>
   item fuel_example_row ''target_completion_year'' = Inr (VInt 2024) \<and>
   py_eq (VInt 2024) (VInt (current_year year_2024)) \<and>
   VInt 2024 = VInt (current_year year_2024) \<and>
   fuel_emission_factor_forecast fuel_example_secondary = VFloat 1.2 \<and>
   fuel_emission_factor_current fuel_example_secondary = VFloat 1.2 \<and>
   lookup_secondary_data year_2024 fuel_example_tables float_year_row
     = Inr (fuel_example_secondary\<lparr>fuel_emission_factor_current := VInt 0,
              fuel_emission_factor_forecast := VInt 0\<rparr>) \<and>
   item float_year_row ''target_completion_year'' = Inr (VFloat 2024) \<and>
   py_eq (VFloat 2024) (VInt (current_year year_2024)) \<and>
   fuel_lookup year_2024 (fuel_data fuel_example_tables) float_year_row = Inr (RowList []) \<and>
   result_len (RowList []) \<le> 1"
proof -
  have a: "item fuel_example_row ''target_completion_year'' = Inr (VInt 2024)"
    by (simp add: item_fuel_example operation_columns_def cell_def)
  have b: "VInt 2024 = VInt (current_year year_2024)"
    by (simp add: year_2024_def)
  have c: "item float_year_row ''target_completion_year'' = Inr (VFloat 2024)"
    by (simp add: item_float_year operation_columns_def cell_def)
  have d: "py_eq (VFloat 2024) (VInt (current_year year_2024))"
    by (simp add: year_2024_def)
  have e: "py_eq (VInt 2024) (VInt (current_year year_2024))"
    by (simp add: year_2024_def)
  have "fuel_emission_factor_forecast fuel_example_secondary
        = fuel_emission_factor_current fuel_example_secondary"
    using forecast_factor_of_current_year [of year_2024 fuel_example_tables fuel_example_row
        fuel_example_secondary "VInt 2024"] fuel_example_secondary_data a b e
    by blast
  then show ?thesis
    using fuel_example_secondary_data float_year_secondary_data float_year_lookup a b c d e
    by (simp add: fuel_example_secondary_def)
qed

subsection \<open>The numeric fields\<close>

lemma numeric_field_value:
  "k \<in> set (labels row) \<Longrightarrow>
   numeric_field env row k = Inr (coerce_or_zero env (cell (entries row) k))"
  by (cases "cell (entries row) k")
    (auto simp: numeric_field_def item_def isna_def Let_def split: option.splits sum.splits)

lemma coerce_or_zero_number: "num_of (coerce_or_zero env v) \<noteq> None"
  by (cases v) (auto split: option.splits sum.splits)

lemma coerce_or_zero_failed: "num_of (to_numeric env v) = None \<Longrightarrow> coerce_or_zero env v = VInt 0"
  by (cases v) (auto split: option.splits sum.splits)

lemma coerce_or_zero_number_kept:
  "num_of (to_numeric env v) \<noteq> None \<Longrightarrow> coerce_or_zero env v = to_numeric env v"
  by (cases v) (auto split: option.splits sum.splits)

text \<open>
  Claim C9. Each of the nine numeric fields of a row is converted before the emissions
  are computed: the result of stage 2 holds, for each field, a number, which is 0 when
  the value of the field is no number or is missing; the stage raises no error on a row
  that has the nine fields.
\<close>

theorem numeric_fields_coerced:
  assumes "set numeric_fields \<subseteq> set (labels row)"
  shows "preprocess env row =
           Inr \<lparr>fuel_amount = coerce_or_zero env (cell (entries row) ''fuel_amount''),
                refrigerant_charge = coerce_or_zero env (cell (entries row) ''refrigerant_charge''),
                number_of_refrigerators =
                  coerce_or_zero env (cell (entries row) ''number_of_refrigerators''),
                operating_distance = coerce_or_zero env (cell (entries row) ''operating_distance''),
                tru_number_of_vehicle_units =
                  coerce_or_zero env (cell (entries row) ''tru_number_of_vehicle_units''),
                tru_refrigerant_charge =
                  coerce_or_zero env (cell (entries row) ''tru_refrigerant_charge''),
                livestock_count = coerce_or_zero env (cell (entries row) ''livestock_count''),
                fertilizer_amount = coerce_or_zero env (cell (entries row) ''fertilizer_amount''),
                waste_amount = coerce_or_zero env (cell (entries row) ''waste_amount'')\<rparr> \<and>
         (\<forall>v. num_of (coerce_or_zero env v) \<noteq> None \<and>
              (num_of (to_numeric env v) = None \<longrightarrow> coerce_or_zero env v = VInt 0) \<and>
              (num_of (to_numeric env v) \<noteq> None \<longrightarrow> coerce_or_zero env v = to_numeric env v))"
proof -
  have "k \<in> set numeric_fields \<Longrightarrow>
        numeric_field env row k = Inr (coerce_or_zero env (cell (entries row) k))" for k
    using assms by (auto intro: numeric_field_value)
  then show ?thesis
    by (simp add: preprocess_def numeric_fields_def coerce_or_zero_number
        coerce_or_zero_failed coerce_or_zero_number_kept)
qed

theorem numeric_fields_coerced_witness:
  "set numeric_fields \<subseteq> set (labels mixed_row) \<and>
   preprocess year_2024 mixed_row =
     Inr \<lparr>fuel_amount = VInt 0, refrigerant_charge = VInt 0, number_of_refrigerators = VInt 3,
          operating_distance = VInt 12, tru_number_of_vehicle_units = VFloat 1.5,
          tru_refrigerant_charge = VFloat 2.5, livestock_count = VInt 0,
          fertilizer_amount = VInt 0, waste_amount = VInt 0\<rparr>"
proof -
  have sub: "set numeric_fields \<subseteq> set (labels mixed_row)"
    by (simp add: numeric_fields_def mixed_row_def operation_columns_def)
  from numeric_fields_coerced [OF sub, of year_2024] sub show ?thesis
    by (simp add: mixed_row_def cell_def year_2024_def)
qed

end
